theory Spec2Isabelle
  imports Complex_Main "HOL-Library.AList" "HOL-Library.Log_Nat"
begin

section \<open>The startup scenario simulator (analysis.py)\<close>

text \<open>
  The repository holds three Streamlit scripts, successive versions of one simulator:
  wargame-mode.py (one competitor, no strategic events), app3.py (a competitor list and
  strategic events) and analysis.py (app3.py plus the event tally and the strategic
  scoring). The month loop of app3.py is the month loop of analysis.py without the line
  that counts the events, so the development embeds analysis.py.

  Numbers. The sliders deliver Python ints and the loop computes on Python floats. The
  first embedding takes every quantity of money, every client count and every rate as a
  \<^typ>\<open>real\<close> and computes exactly. It carries the statements in which the arithmetic
  plays no part (when a trial stops, what the success flag is) and the exact algebra of
  events, shocks and the competitor pass. The statements that depend on rounding,
  underflow or overflow (which runs complete, which values a trial takes, what the
  scoring returns) are made on the second embedding, on floats, further down. Loop
  bounds and tallies are Python ints, here \<^typ>\<open>int\<close>.

  Randomness. The script draws from numpy's global generator. The generator is a value
  of an arbitrary type \<open>'g\<close>, threaded through every draw; \<open>rand\<close> stands for
  \<^verbatim>\<open>np.random.rand()\<close> and \<open>choice\<close> for \<^verbatim>\<open>np.random.choice\<close> over the
  four event names. Both belong to numpy, so they are parameters of the model.
\<close>

subsection \<open>Data\<close>

datatype error = ZeroDivisionError | IndexError | ValueError | OverflowError

text \<open>
  The four strings of the event list, in the order of the list literal:
  "Levee de fonds" (Funding), "Partenariat strategique" (Partnership),
  "Bug critique" (CriticalBug), "Crise reputationnelle" (ReputationCrisis).
\<close>

datatype event = LeveeDeFonds | PartenariatStrategique | BugCritique | CriseReputationnelle

record competitor =
  growth :: real
  aggressiveness :: real

text \<open>The module-level names that \<^verbatim>\<open>run_simulation\<close> and the scoring read.\<close>

record params =
  cash_start :: real
  burn_rate :: real
  market_shock_prob :: real
  event_chance :: real
  wargame_mode :: bool
  competitors :: "competitor list"
  total_months :: int
  num_simulations :: int

text \<open>One dictionary appended to \<^verbatim>\<open>history\<close>; the keys competitor_i_clients are one list.\<close>

record month_record =
  h_mois :: nat
  h_cash :: real
  h_clients :: real
  h_shock :: bool
  h_event :: "event option"
  h_competitor_clients :: "real list"

text \<open>One dictionary appended to \<^verbatim>\<open>results\<close>.\<close>

record trial_result =
  succes :: bool
  cash_final :: real
  duree :: nat
  data :: "month_record list"

text \<open>The local variables of one trial.\<close>

record trial_state =
  cash :: real
  clients :: real
  growth_rate :: real
  retention :: real
  comp_clients :: "real list"
  history :: "month_record list"

type_synonym tally = "(event \<times> int) list"

subsection \<open>The month loop\<close>

text \<open>
  \<^verbatim>\<open>event_counts[event_type] = event_counts.get(event_type, 0) + 1\<close>: a dict keeps its
  keys in insertion order, as \<^const>\<open>AList.update\<close> does.
\<close>

definition count_event :: "tally \<Rightarrow> event \<Rightarrow> tally" where
  "count_event event_counts event_type =
     AList.update event_type
       ((case map_of event_counts event_type of None \<Rightarrow> 0 | Some c \<Rightarrow> c) + 1) event_counts"

text \<open>The if/elif chain on the event name.\<close>

definition apply_event :: "event \<Rightarrow> trial_state \<Rightarrow> trial_state" where
  "apply_event event_type st =
     (if event_type = LeveeDeFonds then st\<lparr>cash := cash st + 20000\<rparr>
      else if event_type = PartenariatStrategique then st\<lparr>growth_rate := growth_rate st * 1.2\<rparr>
      else if event_type = BugCritique then st\<lparr>retention := retention st * 0.9\<rparr>
      else if event_type = CriseReputationnelle then st\<lparr>growth_rate := growth_rate st * 0.7\<rparr>
      else st)"

text \<open>
  \<^verbatim>\<open>for i, comp in enumerate(competitors)\<close>, from index \<open>i\<close> on (\<open>cmp\<close> is the
  script's \<^verbatim>\<open>comp\<close>). The update of
  \<^verbatim>\<open>comp_clients[i]\<close> raises IndexError out of range, and the division raises
  ZeroDivisionError when own clients and competitor clients sum to zero.
\<close>

fun competitor_loop ::
  "real \<Rightarrow> nat \<Rightarrow> competitor list \<Rightarrow> real list \<Rightarrow> real \<Rightarrow> error + (real list \<times> real)" where
  "competitor_loop cl i [] cc effective_growth = Inr (cc, effective_growth)"
| "competitor_loop cl i (cmp # rest) cc effective_growth =
     (if length cc \<le> i then Inl IndexError
      else
        let cc1 = cc[i := cc ! i * (1 + growth cmp / 100)];
            denom = cl + sum_list cc1
        in if denom = 0 then Inl ZeroDivisionError
           else
             let market_share_loss = (aggressiveness cmp / 100) * (cc1 ! i / denom)
             in competitor_loop cl (Suc i) rest cc1
                  (effective_growth * max 0 (1 - market_share_loss)))"

text \<open>The body of \<^verbatim>\<open>for month in range(total_months)\<close> up to the append.\<close>

definition month_body ::
  "('g \<Rightarrow> real \<times> 'g) \<Rightarrow> ('g \<Rightarrow> event \<times> 'g) \<Rightarrow> params \<Rightarrow> nat \<Rightarrow>
   trial_state \<times> tally \<times> 'g \<Rightarrow> error + (trial_state \<times> tally \<times> 'g)" where
  "month_body rand choice p month s =
     (case s of (st, event_counts, g) \<Rightarrow>
      let (u1, g1) = rand g;
          shock = u1 < market_shock_prob p / 100;
          (u2, g2) = rand g1;
          event_triggered = u2 < event_chance p / 100;
          effective_growth = growth_rate st / 100 * (if shock then 0.5 else 1.0)
      in (case (if wargame_mode p
                then competitor_loop (clients st) 0 (competitors p) (comp_clients st)
                       effective_growth
                else Inr (comp_clients st, effective_growth)) of
           Inl e \<Rightarrow> Inl e
         | Inr (cc, effective_growth') \<Rightarrow>
             let st1 = st\<lparr>comp_clients := cc\<rparr>;
                 (event_type, event_counts', st2, g3) =
                   (if event_triggered
                    then (let (ev, g3) = choice g2
                          in (Some ev, count_event event_counts ev, apply_event ev st1, g3))
                    else (None, event_counts, st1, g2));
                 new_clients = clients st2 * effective_growth';
                 clients' = clients st2 * (retention st2 / 100) + new_clients;
                 revenue = clients' * 10;
                 cash' = cash st2 + (revenue - burn_rate p);
                 row = \<lparr>h_mois = month + 1, h_cash = cash', h_clients = clients',
                        h_shock = shock, h_event = event_type,
                        h_competitor_clients = comp_clients st2\<rparr>
             in Inr (st2\<lparr>cash := cash', clients := clients', history := history st2 @ [row]\<rparr>,
                     event_counts', g3)))"

text \<open>The loop itself, with its \<^verbatim>\<open>if cash < 0: break\<close>.\<close>

fun run_months ::
  "('g \<Rightarrow> real \<times> 'g) \<Rightarrow> ('g \<Rightarrow> event \<times> 'g) \<Rightarrow> params \<Rightarrow> nat list \<Rightarrow>
   trial_state \<times> tally \<times> 'g \<Rightarrow> error + (trial_state \<times> tally \<times> 'g)" where
  "run_months rand choice p [] s = Inr s"
| "run_months rand choice p (month # rest) s =
     (case month_body rand choice p month s of
        Inl e \<Rightarrow> Inl e
      | Inr s' \<Rightarrow> if cash (fst s') < 0 then Inr s' else run_months rand choice p rest s')"

text \<open>Python's \<^verbatim>\<open>range(n)\<close> for an int \<open>n\<close>: empty when \<open>n \<le> 0\<close>.\<close>

definition py_range :: "int \<Rightarrow> nat list" where
  "py_range n = [0..<nat n]"

subsection \<open>One trial and the whole run\<close>

definition run_trial ::
  "('g \<Rightarrow> real \<times> 'g) \<Rightarrow> ('g \<Rightarrow> event \<times> 'g) \<Rightarrow> params \<Rightarrow> real \<Rightarrow> real \<Rightarrow>
   tally \<times> 'g \<Rightarrow> error + (trial_result \<times> tally \<times> 'g)" where
  "run_trial rand choice p growth_rate_init retention_init s =
     (case s of (event_counts, g) \<Rightarrow>
      let st0 = \<lparr>cash = cash_start p, clients = 100, growth_rate = growth_rate_init,
                 retention = retention_init,
                 comp_clients = map (\<lambda>_. 100) (competitors p), history = []\<rparr>
      in (case run_months rand choice p (py_range (total_months p)) (st0, event_counts, g) of
           Inl e \<Rightarrow> Inl e
         | Inr (st, event_counts', g') \<Rightarrow>
             let final_cash = cash st;
                 success = final_cash > 0
             in Inr (\<lparr>succes = success, cash_final = final_cash,
                       duree = length (history st), data = history st\<rparr>,
                     event_counts', g')))"

fun run_trials ::
  "('g \<Rightarrow> real \<times> 'g) \<Rightarrow> ('g \<Rightarrow> event \<times> 'g) \<Rightarrow> params \<Rightarrow> real \<Rightarrow> real \<Rightarrow> nat list \<Rightarrow>
   trial_result list \<times> tally \<times> 'g \<Rightarrow> error + (trial_result list \<times> tally \<times> 'g)" where
  "run_trials rand choice p growth_rate_init retention_init [] s = Inr s"
| "run_trials rand choice p growth_rate_init retention_init (n # rest) s =
     (case s of (results, event_counts, g) \<Rightarrow>
      (case run_trial rand choice p growth_rate_init retention_init (event_counts, g) of
         Inl e \<Rightarrow> Inl e
       | Inr (r, event_counts', g') \<Rightarrow>
           run_trials rand choice p growth_rate_init retention_init rest
             (results @ [r], event_counts', g')))"

text \<open>
  \<^verbatim>\<open>run_simulation(growth_rate_init, retention_init)\<close>: the result list and the tally.
  An exception raised in any month of any trial leaves the function, so nothing is returned.
\<close>

definition run_simulation ::
  "('g \<Rightarrow> real \<times> 'g) \<Rightarrow> ('g \<Rightarrow> event \<times> 'g) \<Rightarrow> params \<Rightarrow> real \<Rightarrow> real \<Rightarrow> 'g \<Rightarrow>
   error + (trial_result list \<times> tally)" where
  "run_simulation rand choice p growth_rate_init retention_init g =
     (case run_trials rand choice p growth_rate_init retention_init
             (py_range (num_simulations p)) ([], [], g) of
        Inl e \<Rightarrow> Inl e
      | Inr (results, event_counts, g') \<Rightarrow> Inr (results, event_counts))"

subsection \<open>A replay generator for worked examples\<close>

text \<open>
  A generator that replays two prepared lists: the uniform draws and the chosen events.
  When a list is used up it keeps answering 0 and the first event name.
\<close>

type_synonym replay = "real list \<times> event list"

definition replay_rand :: "replay \<Rightarrow> real \<times> replay" where
  "replay_rand g = (case fst g of [] \<Rightarrow> (0, g) | u # us \<Rightarrow> (u, (us, snd g)))"

definition replay_choice :: "replay \<Rightarrow> event \<times> replay" where
  "replay_choice g = (case snd g of [] \<Rightarrow> (LeveeDeFonds, g) | e # es \<Rightarrow> (e, (fst g, es)))"

definition steady_rand :: "real \<Rightarrow> 'g \<Rightarrow> real \<times> 'g" where
  "steady_rand u g = (u, g)"

definition steady_choice :: "event \<Rightarrow> 'g \<Rightarrow> event \<times> 'g" where
  "steady_choice e g = (e, g)"

text \<open>
  The parameters of the trace the specification computes by hand: 20000 of cash, a burn
  rate of 5000, no shock, no event, no competitor, three months, one trial.
\<close>

definition example_params :: params where
  "example_params =
     \<lparr>cash_start = 20000, burn_rate = 5000, market_shock_prob = 0, event_chance = 0,
      wargame_mode = False, competitors = [], total_months = 3, num_simulations = 1\<rparr>"

subsection \<open>The month body in parts\<close>

text \<open>
  The same month body, cut at the places the statements below speak about: the two
  flags drawn at the top of the month, the generator left behind, the competitor pass,
  and the update of the trial's variables once the flags, the competitor counts and the
  effective growth are known. Lemma \<open>month_body_eq\<close> shows that \<^const>\<open>month_body\<close>
  is their composition.
\<close>

definition shock_draw :: "('g \<Rightarrow> real \<times> 'g) \<Rightarrow> params \<Rightarrow> 'g \<Rightarrow> bool" where
  "shock_draw rand p g = (fst (rand g) < market_shock_prob p / 100)"

definition event_draw ::
  "('g \<Rightarrow> real \<times> 'g) \<Rightarrow> ('g \<Rightarrow> event \<times> 'g) \<Rightarrow> params \<Rightarrow> 'g \<Rightarrow> event option" where
  "event_draw rand choice p g =
     (if fst (rand (snd (rand g))) < event_chance p / 100
      then Some (fst (choice (snd (rand (snd (rand g)))))) else None)"

definition after_draws ::
  "('g \<Rightarrow> real \<times> 'g) \<Rightarrow> ('g \<Rightarrow> event \<times> 'g) \<Rightarrow> params \<Rightarrow> 'g \<Rightarrow> 'g" where
  "after_draws rand choice p g =
     (if fst (rand (snd (rand g))) < event_chance p / 100
      then snd (choice (snd (rand (snd (rand g))))) else snd (rand (snd (rand g))))"

definition competitor_step :: "params \<Rightarrow> trial_state \<Rightarrow> bool \<Rightarrow> error + (real list \<times> real)" where
  "competitor_step p st shk =
     (if wargame_mode p
      then competitor_loop (clients st) 0 (competitors p) (comp_clients st)
             (growth_rate st / 100 * (if shk then 0.5 else 1.0))
      else Inr (comp_clients st, growth_rate st / 100 * (if shk then 0.5 else 1.0)))"

definition count_opt :: "tally \<Rightarrow> event option \<Rightarrow> tally" where
  "count_opt ec evo = (case evo of None \<Rightarrow> ec | Some ev \<Rightarrow> count_event ec ev)"

definition event_opt :: "event option \<Rightarrow> trial_state \<Rightarrow> trial_state" where
  "event_opt evo st = (case evo of None \<Rightarrow> st | Some ev \<Rightarrow> apply_event ev st)"

definition month_update ::
  "params \<Rightarrow> nat \<Rightarrow> bool \<Rightarrow> event option \<Rightarrow> real list \<Rightarrow> real \<Rightarrow> trial_state \<Rightarrow> trial_state" where
  "month_update p month shk evo cc eg st =
     (let st2 = event_opt evo (st\<lparr>comp_clients := cc\<rparr>);
          clients' = clients st2 * (retention st2 / 100) + clients st2 * eg;
          cash' = cash st2 + (clients' * 10 - burn_rate p)
      in st2\<lparr>cash := cash', clients := clients',
             history := history st2 @
               [\<lparr>h_mois = month + 1, h_cash = cash', h_clients = clients', h_shock = shk,
                 h_event = evo, h_competitor_clients = comp_clients st2\<rparr>]\<rparr>)"

subsection \<open>Worked examples\<close>

text \<open>The trace of \<^const>\<open>example_params\<close> with a growth of 20 and a retention of 80.\<close>

definition example_trial :: trial_result where
  "example_trial =
     \<lparr>succes = True, cash_final = 8000, duree = 3,
      data = [\<lparr>h_mois = 1, h_cash = 16000, h_clients = 100, h_shock = False,
                h_event = None, h_competitor_clients = []\<rparr>,
              \<lparr>h_mois = 2, h_cash = 12000, h_clients = 100, h_shock = False,
                h_event = None, h_competitor_clients = []\<rparr>,
              \<lparr>h_mois = 3, h_cash = 8000, h_clients = 100, h_shock = False,
                h_event = None, h_competitor_clients = []\<rparr>]\<rparr>"

text \<open>The same company with 1000 of cash: the first month ends at -3000 and the trial stops.\<close>

definition tight_params :: params where
  "tight_params = example_params\<lparr>cash_start := 1000\<rparr>"

definition tight_trial :: trial_result where
  "tight_trial =
     \<lparr>succes = False, cash_final = - 3000, duree = 1,
      data = [\<lparr>h_mois = 1, h_cash = - 3000, h_clients = 100, h_shock = False,
                h_event = None, h_competitor_clients = []\<rparr>]\<rparr>"

text \<open>
  One month with 4000 of cash, no growth and full retention: revenue 1000 against a burn
  rate of 5000 leaves exactly 0.
\<close>

definition breakeven_params :: params where
  "breakeven_params = example_params\<lparr>cash_start := 4000, total_months := 1\<rparr>"

definition breakeven_trial :: trial_result where
  "breakeven_trial =
     \<lparr>succes = False, cash_final = 0, duree = 1,
      data = [\<lparr>h_mois = 1, h_cash = 0, h_clients = 100, h_shock = False,
                h_event = None, h_competitor_clients = []\<rparr>]\<rparr>"

text \<open>
  A trial seen from inside: the variables at the start of a trial of the example company,
  then after a month in which a strategic partnership is drawn, then after a second month
  in which a critical bug is drawn. Every month of \<open>event_params\<close> has an event.
\<close>

definition event_params :: params where
  "event_params = example_params\<lparr>event_chance := 100, total_months := 2\<rparr>"

definition start_state :: trial_state where
  "start_state =
     \<lparr>cash = 20000, clients = 100, growth_rate = 20, retention = 80,
      comp_clients = [], history = []\<rparr>"

definition partner_row :: month_record where
  "partner_row =
     \<lparr>h_mois = 1, h_cash = 16000, h_clients = 100, h_shock = False,
      h_event = Some PartenariatStrategique, h_competitor_clients = []\<rparr>"

definition partner_state :: trial_state where
  "partner_state =
     \<lparr>cash = 16000, clients = 100, growth_rate = 24, retention = 80,
      comp_clients = [], history = [partner_row]\<rparr>"

definition bug_state :: trial_state where
  "bug_state =
     \<lparr>cash = 11960, clients = 96, growth_rate = 24, retention = 72,
      comp_clients = [],
      history = [partner_row,
                 \<lparr>h_mois = 2, h_cash = 11960, h_clients = 96, h_shock = False,
                  h_event = Some BugCritique, h_competitor_clients = []\<rparr>]\<rparr>"

text \<open>
  The first month of the example company under a shock probability of 10, once with a
  first draw of 0.05 (a shock) and once with a first draw of 0.5 (none).
\<close>

definition shock_params :: params where
  "shock_params = example_params\<lparr>market_shock_prob := 10\<rparr>"

definition shocked_state :: trial_state where
  "shocked_state =
     \<lparr>cash = 15900, clients = 90, growth_rate = 20, retention = 80, comp_clients = [],
      history = [\<lparr>h_mois = 1, h_cash = 15900, h_clients = 90, h_shock = True,
                  h_event = None, h_competitor_clients = []\<rparr>]\<rparr>"

definition calm_state :: trial_state where
  "calm_state =
     \<lparr>cash = 16000, clients = 100, growth_rate = 20, retention = 80, comp_clients = [],
      history = [\<lparr>h_mois = 1, h_cash = 16000, h_clients = 100, h_shock = False,
                  h_event = None, h_competitor_clients = []\<rparr>]\<rparr>"

subsection \<open>A tally without negative counts\<close>

definition tally_ok :: "tally \<Rightarrow> bool" where
  "tally_ok ec = list_all (\<lambda>x. 0 \<le> snd x) ec"

subsection \<open>The effect table of the specification\<close>

text \<open>
  The table of the specification, one column per variable it touches: the factor applied
  to the growth rate, the factor applied to the retention, the amount added to the cash.
  No event leaves all three alone.
\<close>

definition growth_factor :: "event option \<Rightarrow> real" where
  "growth_factor evo =
     (case evo of Some PartenariatStrategique \<Rightarrow> 1.2 | Some CriseReputationnelle \<Rightarrow> 0.7 | _ \<Rightarrow> 1)"

definition retention_factor :: "event option \<Rightarrow> real" where
  "retention_factor evo = (case evo of Some BugCritique \<Rightarrow> 0.9 | _ \<Rightarrow> 1)"

definition cash_bonus :: "event option \<Rightarrow> real" where
  "cash_bonus evo = (case evo of Some LeveeDeFonds \<Rightarrow> 20000 | _ \<Rightarrow> 0)"

subsection \<open>The competitor pass in the words of the specification\<close>

text \<open>
  These definitions follow the words of the specification. \<open>in_progress comps cc k\<close> is
  the list of competitor client counts once the first \<open>k\<close> competitors of the list have
  been processed: their counts are compounded by \<open>1 + growth/100\<close>, the later ones are
  not yet. Competitor \<open>i\<close> (counting from 0) is judged on the list in which it is itself
  already compounded, \<open>in_progress comps cc (Suc i)\<close>: the denominator is own clients
  plus the sum of that list, the loss is \<open>aggressiveness/100\<close> times the competitor's
  share of the denominator.
\<close>

definition in_progress :: "competitor list \<Rightarrow> real list \<Rightarrow> nat \<Rightarrow> real list" where
  "in_progress comps cc k =
     map (\<lambda>j. if j < k then cc ! j * (1 + growth (comps ! j) / 100) else cc ! j)
       [0..<length cc]"




subsection \<open>Valid parameters\<close>

text \<open>
  The ranges of section 6 of the specification, in its words: horizon and number of
  trials at least 1, a burn rate that is not negative, retention, shock probability,
  event probability and every competitor's aggressiveness between 0 and 100. The growth
  rates are free, and a positive initial cash is recommended only. The script has no
  such check; the predicate serves to say which inputs the specification calls invalid.
\<close>

definition valid_parameters :: "params \<Rightarrow> real \<Rightarrow> real \<Rightarrow> bool" where
  "valid_parameters p growth_rate_init retention_init =
     (1 \<le> total_months p \<and> 1 \<le> num_simulations p \<and> 0 \<le> burn_rate p
      \<and> 0 \<le> retention_init \<and> retention_init \<le> 100
      \<and> 0 \<le> market_shock_prob p \<and> market_shock_prob p \<le> 100
      \<and> 0 \<le> event_chance p \<and> event_chance p \<le> 100
      \<and> list_all (\<lambda>c. 0 \<le> aggressiveness c \<and> aggressiveness c \<le> 100) (competitors p))"

text \<open>No competitor: wargame mode is off, or the list is empty.\<close>

definition no_competitor :: "params \<Rightarrow> bool" where
  "no_competitor p = (\<not> wargame_mode p \<or> competitors p = [])"


text \<open>
  A company that neither keeps nor gains clients, against a competitor that loses all of
  its clients every month.
\<close>

definition vanishing_params :: params where
  "vanishing_params =
     example_params\<lparr>wargame_mode := True,
                    competitors := [\<lparr>growth = - 100, aggressiveness = 100\<rparr>]\<rparr>"

section \<open>The same script on floating-point numbers\<close>

text \<open>
  The definitions above compute on exact real numbers. That is enough for what depends on
  the shape of the loops only, and for the algebra of events, shocks and competitors. It
  is not the arithmetic of the script: Python rounds every operation to a binary64
  number, a product can underflow to zero or overflow to an infinity, and the outcome of
  \<^verbatim>\<open>cash < 0\<close> or of a division by a sum can differ from the exact one. This section
  embeds the script a second time, on floats, for the statements that depend on it.

  A float is a finite number, an infinity or NaN. The sign of a zero is not kept: the
  script never observes it (a division by either zero raises, and both zeros compare
  alike). Every operation computes the exact result and rounds it with \<open>rnd\<close>, a
  parameter: the statements that hold for every rounding hold for the machine's, and
  \<open>b64\<close> below is the rounding of IEEE 754 binary64 (nearest, ties to even) for the
  worked examples. The parameters are the values of the sliders, which are ints; an int
  enters a float operation unchanged.
\<close>

subsection \<open>Floats and their operations\<close>

datatype pyfloat = Finite real | PInf | MInf | NaN

text \<open>\<^verbatim>\<open>a < b\<close>: false as soon as one side is NaN.\<close>

fun flt :: "pyfloat \<Rightarrow> pyfloat \<Rightarrow> bool" where
  "flt (Finite x) (Finite y) = (x < y)"
| "flt (Finite x) PInf = True"
| "flt MInf (Finite y) = True"
| "flt MInf PInf = True"
| "flt a b = False"

fun fneg :: "pyfloat \<Rightarrow> pyfloat" where
  "fneg (Finite x) = Finite (- x)"
| "fneg PInf = MInf"
| "fneg MInf = PInf"
| "fneg NaN = NaN"

text \<open>The infinity of the sign of \<open>x\<close>, for a product or quotient with an infinite operand.\<close>

definition signed_inf :: "real \<Rightarrow> pyfloat" where
  "signed_inf x = (if x = 0 then NaN else if 0 < x then PInf else MInf)"

fun fadd :: "(real \<Rightarrow> pyfloat) \<Rightarrow> pyfloat \<Rightarrow> pyfloat \<Rightarrow> pyfloat" where
  "fadd rnd (Finite x) (Finite y) = rnd (x + y)"
| "fadd rnd NaN b = NaN"
| "fadd rnd a NaN = NaN"
| "fadd rnd PInf MInf = NaN"
| "fadd rnd MInf PInf = NaN"
| "fadd rnd PInf b = PInf"
| "fadd rnd MInf b = MInf"
| "fadd rnd a PInf = PInf"
| "fadd rnd a MInf = MInf"

definition fsub :: "(real \<Rightarrow> pyfloat) \<Rightarrow> pyfloat \<Rightarrow> pyfloat \<Rightarrow> pyfloat" where
  "fsub rnd a b = fadd rnd a (fneg b)"

fun fmul :: "(real \<Rightarrow> pyfloat) \<Rightarrow> pyfloat \<Rightarrow> pyfloat \<Rightarrow> pyfloat" where
  "fmul rnd (Finite x) (Finite y) = rnd (x * y)"
| "fmul rnd NaN b = NaN"
| "fmul rnd a NaN = NaN"
| "fmul rnd PInf (Finite y) = signed_inf y"
| "fmul rnd MInf (Finite y) = signed_inf (- y)"
| "fmul rnd (Finite x) PInf = signed_inf x"
| "fmul rnd (Finite x) MInf = signed_inf (- x)"
| "fmul rnd PInf PInf = PInf"
| "fmul rnd MInf MInf = PInf"
| "fmul rnd PInf MInf = MInf"
| "fmul rnd MInf PInf = MInf"

text \<open>
  The quotient by a divisor that is not zero. A finite number over an infinity is zero,
  an infinity over an infinity is NaN.
\<close>

fun fdiv :: "(real \<Rightarrow> pyfloat) \<Rightarrow> pyfloat \<Rightarrow> pyfloat \<Rightarrow> pyfloat" where
  "fdiv rnd (Finite x) (Finite y) = rnd (x / y)"
| "fdiv rnd NaN b = NaN"
| "fdiv rnd a NaN = NaN"
| "fdiv rnd (Finite x) PInf = Finite 0"
| "fdiv rnd (Finite x) MInf = Finite 0"
| "fdiv rnd PInf (Finite y) = signed_inf y"
| "fdiv rnd MInf (Finite y) = signed_inf (- y)"
| "fdiv rnd a b = NaN"

text \<open>Python's \<^verbatim>\<open>a / b\<close>: a zero divisor raises.\<close>

definition py_div :: "(real \<Rightarrow> pyfloat) \<Rightarrow> pyfloat \<Rightarrow> pyfloat \<Rightarrow> error + pyfloat" where
  "py_div rnd a b = (if b = Finite 0 then Inl ZeroDivisionError else Inr (fdiv rnd a b))"

text \<open>
  \<^verbatim>\<open>max(0.0, y)\<close>: the builtin keeps its first argument unless a later one is greater,
  so NaN gives 0.0.
\<close>

definition fmax0 :: "pyfloat \<Rightarrow> pyfloat" where
  "fmax0 y = (if flt (Finite 0) y then y else Finite 0)"

text \<open>
  \<^verbatim>\<open>sum(xs)\<close> from the int 0, left to right, each addition rounded. From Python 3.12 on
  the builtin compensates the rounding errors of float addends, so the run below takes
  the sum of the competitor counts as a parameter \<open>fsum\<close> and its statements hold for
  every summation. This one serves the worked examples, where the list has one element
  and every summation gives that element, and the mean of the examples.
\<close>

definition py_sum :: "(real \<Rightarrow> pyfloat) \<Rightarrow> pyfloat list \<Rightarrow> pyfloat" where
  "py_sum rnd xs = foldl (fadd rnd) (Finite 0) xs"

subsection \<open>The month loop on floats\<close>

record fl_month_record =
  f_mois :: nat
  f_row_cash :: pyfloat
  f_row_clients :: pyfloat
  f_shock :: bool
  f_event :: "event option"
  f_competitor_clients :: "pyfloat list"

record fl_trial_result =
  f_succes :: bool
  f_cash_final :: pyfloat
  f_duree :: nat
  f_data :: "fl_month_record list"

record fl_trial_state =
  f_cash :: pyfloat
  f_clients :: pyfloat
  f_growth_rate :: pyfloat
  f_retention :: pyfloat
  f_comp_clients :: "pyfloat list"
  f_history :: "fl_month_record list"

text \<open>The if/elif chain; a literal such as 1.2 is the float nearest to it.\<close>

definition fl_apply_event ::
  "(real \<Rightarrow> pyfloat) \<Rightarrow> event \<Rightarrow> fl_trial_state \<Rightarrow> fl_trial_state" where
  "fl_apply_event rnd event_type st =
     (if event_type = LeveeDeFonds then st\<lparr>f_cash := fadd rnd (f_cash st) (Finite 20000)\<rparr>
      else if event_type = PartenariatStrategique
        then st\<lparr>f_growth_rate := fmul rnd (f_growth_rate st) (rnd 1.2)\<rparr>
      else if event_type = BugCritique
        then st\<lparr>f_retention := fmul rnd (f_retention st) (rnd 0.9)\<rparr>
      else if event_type = CriseReputationnelle
        then st\<lparr>f_growth_rate := fmul rnd (f_growth_rate st) (rnd 0.7)\<rparr>
      else st)"

text \<open>
  Lines 59 to 62, with the division that raises on a zero denominator; \<open>fsum\<close> is
  \<^verbatim>\<open>sum\<close>.
\<close>

fun fl_competitor_loop ::
  "(real \<Rightarrow> pyfloat) \<Rightarrow> (pyfloat list \<Rightarrow> pyfloat) \<Rightarrow> pyfloat \<Rightarrow> nat \<Rightarrow> competitor list \<Rightarrow> pyfloat list \<Rightarrow> pyfloat \<Rightarrow>
   error + (pyfloat list \<times> pyfloat)" where
  "fl_competitor_loop rnd fsum cl i [] cc effective_growth = Inr (cc, effective_growth)"
| "fl_competitor_loop rnd fsum cl i (cmp # rest) cc effective_growth =
     (if length cc \<le> i then Inl IndexError
      else
        let cc1 = cc[i := fmul rnd (cc ! i)
                            (fadd rnd (Finite 1)
                               (fdiv rnd (Finite (growth cmp)) (Finite 100)))];
            denom = fadd rnd cl (fsum cc1)
        in (case py_div rnd (cc1 ! i) denom of
              Inl e \<Rightarrow> Inl e
            | Inr share \<Rightarrow>
                let market_share_loss =
                      fmul rnd (fdiv rnd (Finite (aggressiveness cmp)) (Finite 100)) share
                in fl_competitor_loop rnd fsum cl (Suc i) rest cc1
                     (fmul rnd effective_growth
                        (fmax0 (fsub rnd (Finite 1) market_share_loss)))))"

definition fl_month_body ::
  "(real \<Rightarrow> pyfloat) \<Rightarrow> (pyfloat list \<Rightarrow> pyfloat) \<Rightarrow> ('g \<Rightarrow> real \<times> 'g) \<Rightarrow> ('g \<Rightarrow> event \<times> 'g) \<Rightarrow> params \<Rightarrow> nat \<Rightarrow>
   fl_trial_state \<times> tally \<times> 'g \<Rightarrow> error + (fl_trial_state \<times> tally \<times> 'g)" where
  "fl_month_body rnd fsum rand choice p month s =
     (case s of (st, event_counts, g) \<Rightarrow>
      let (u1, g1) = rand g;
          shock = flt (Finite u1) (fdiv rnd (Finite (market_shock_prob p)) (Finite 100));
          (u2, g2) = rand g1;
          event_triggered = flt (Finite u2) (fdiv rnd (Finite (event_chance p)) (Finite 100));
          effective_growth =
            fmul rnd (fdiv rnd (f_growth_rate st) (Finite 100))
              (if shock then rnd 0.5 else rnd 1.0)
      in (case (if wargame_mode p
                then fl_competitor_loop rnd fsum (f_clients st) 0 (competitors p)
                       (f_comp_clients st) effective_growth
                else Inr (f_comp_clients st, effective_growth)) of
           Inl e \<Rightarrow> Inl e
         | Inr (cc, effective_growth') \<Rightarrow>
             let st1 = st\<lparr>f_comp_clients := cc\<rparr>;
                 (event_type, event_counts', st2, g3) =
                   (if event_triggered
                    then (let (ev, g3) = choice g2
                          in (Some ev, count_event event_counts ev,
                              fl_apply_event rnd ev st1, g3))
                    else (None, event_counts, st1, g2));
                 new_clients = fmul rnd (f_clients st2) effective_growth';
                 clients' =
                   fadd rnd (fmul rnd (f_clients st2) (fdiv rnd (f_retention st2) (Finite 100)))
                     new_clients;
                 revenue = fmul rnd clients' (Finite 10);
                 cash' = fadd rnd (f_cash st2) (fsub rnd revenue (Finite (burn_rate p)));
                 row = \<lparr>f_mois = month + 1, f_row_cash = cash', f_row_clients = clients',
                        f_shock = shock, f_event = event_type,
                        f_competitor_clients = f_comp_clients st2\<rparr>
             in Inr (st2\<lparr>f_cash := cash', f_clients := clients',
                         f_history := f_history st2 @ [row]\<rparr>,
                     event_counts', g3)))"

fun fl_run_months ::
  "(real \<Rightarrow> pyfloat) \<Rightarrow> (pyfloat list \<Rightarrow> pyfloat) \<Rightarrow> ('g \<Rightarrow> real \<times> 'g) \<Rightarrow> ('g \<Rightarrow> event \<times> 'g) \<Rightarrow> params \<Rightarrow> nat list \<Rightarrow>
   fl_trial_state \<times> tally \<times> 'g \<Rightarrow> error + (fl_trial_state \<times> tally \<times> 'g)" where
  "fl_run_months rnd fsum rand choice p [] s = Inr s"
| "fl_run_months rnd fsum rand choice p (month # rest) s =
     (case fl_month_body rnd fsum rand choice p month s of
        Inl e \<Rightarrow> Inl e
      | Inr s' \<Rightarrow>
          if flt (f_cash (fst s')) (Finite 0) then Inr s'
          else fl_run_months rnd fsum rand choice p rest s')"

definition fl_run_trial ::
  "(real \<Rightarrow> pyfloat) \<Rightarrow> (pyfloat list \<Rightarrow> pyfloat) \<Rightarrow> ('g \<Rightarrow> real \<times> 'g) \<Rightarrow> ('g \<Rightarrow> event \<times> 'g) \<Rightarrow> params \<Rightarrow> real \<Rightarrow> real \<Rightarrow>
   tally \<times> 'g \<Rightarrow> error + (fl_trial_result \<times> tally \<times> 'g)" where
  "fl_run_trial rnd fsum rand choice p growth_rate_init retention_init s =
     (case s of (event_counts, g) \<Rightarrow>
      let st0 = \<lparr>f_cash = Finite (cash_start p), f_clients = Finite 100,
                 f_growth_rate = Finite growth_rate_init,
                 f_retention = Finite retention_init,
                 f_comp_clients = map (\<lambda>_. Finite 100) (competitors p), f_history = []\<rparr>
      in (case fl_run_months rnd fsum rand choice p (py_range (total_months p))
                 (st0, event_counts, g) of
           Inl e \<Rightarrow> Inl e
         | Inr (st, event_counts', g') \<Rightarrow>
             let final_cash = f_cash st;
                 success = flt (Finite 0) final_cash
             in Inr (\<lparr>f_succes = success, f_cash_final = final_cash,
                       f_duree = length (f_history st), f_data = f_history st\<rparr>,
                     event_counts', g')))"

fun fl_run_trials ::
  "(real \<Rightarrow> pyfloat) \<Rightarrow> (pyfloat list \<Rightarrow> pyfloat) \<Rightarrow> ('g \<Rightarrow> real \<times> 'g) \<Rightarrow> ('g \<Rightarrow> event \<times> 'g) \<Rightarrow> params \<Rightarrow> real \<Rightarrow> real \<Rightarrow>
   nat list \<Rightarrow> fl_trial_result list \<times> tally \<times> 'g \<Rightarrow>
   error + (fl_trial_result list \<times> tally \<times> 'g)" where
  "fl_run_trials rnd fsum rand choice p growth_rate_init retention_init [] s = Inr s"
| "fl_run_trials rnd fsum rand choice p growth_rate_init retention_init (n # rest) s =
     (case s of (results, event_counts, g) \<Rightarrow>
      (case fl_run_trial rnd fsum rand choice p growth_rate_init retention_init
              (event_counts, g) of
         Inl e \<Rightarrow> Inl e
       | Inr (r, event_counts', g') \<Rightarrow>
           fl_run_trials rnd fsum rand choice p growth_rate_init retention_init rest
             (results @ [r], event_counts', g')))"

definition fl_run_simulation ::
  "(real \<Rightarrow> pyfloat) \<Rightarrow> (pyfloat list \<Rightarrow> pyfloat) \<Rightarrow> ('g \<Rightarrow> real \<times> 'g) \<Rightarrow> ('g \<Rightarrow> event \<times> 'g) \<Rightarrow> params \<Rightarrow> real \<Rightarrow> real \<Rightarrow>
   'g \<Rightarrow> error + (fl_trial_result list \<times> tally)" where
  "fl_run_simulation rnd fsum rand choice p growth_rate_init retention_init g =
     (case fl_run_trials rnd fsum rand choice p growth_rate_init retention_init
             (py_range (num_simulations p)) ([], [], g) of
        Inl e \<Rightarrow> Inl e
      | Inr (results, event_counts, g') \<Rightarrow> Inr (results, event_counts))"

subsection \<open>The strategic scoring on floats\<close>

text \<open>
  \<^verbatim>\<open>round(x)\<close> of a float is the nearest integer, a tie going to the even one, and
  \<^verbatim>\<open>int(x)\<close> truncates towards zero; both raise ValueError on NaN and OverflowError
  on an infinity.
\<close>

definition py_round :: "real \<Rightarrow> int" where
  "py_round x =
     (let f = \<lfloor>x\<rfloor>; d = x - of_int f
      in if d < 1 / 2 then f else if 1 / 2 < d then f + 1 else if even f then f else f + 1)"

definition py_int :: "real \<Rightarrow> int" where
  "py_int x = (if 0 \<le> x then \<lfloor>x\<rfloor> else \<lceil>x\<rceil>)"

fun py_round_float :: "pyfloat \<Rightarrow> error + int" where
  "py_round_float (Finite x) = Inr (py_round x)"
| "py_round_float NaN = Inl ValueError"
| "py_round_float a = Inl OverflowError"

fun py_int_float :: "pyfloat \<Rightarrow> error + int" where
  "py_int_float (Finite x) = Inr (py_int x)"
| "py_int_float NaN = Inl ValueError"
| "py_int_float a = Inl OverflowError"

text \<open>
  A float64 of numpy divided by a float: a zero divisor raises nothing (a warning only)
  and gives NaN for 0/0 and an infinity otherwise.
\<close>

definition np_div :: "(real \<Rightarrow> pyfloat) \<Rightarrow> pyfloat \<Rightarrow> pyfloat \<Rightarrow> pyfloat" where
  "np_div rnd a b =
     (if b = Finite 0
      then (case a of Finite x \<Rightarrow> signed_inf x | PInf \<Rightarrow> PInf | MInf \<Rightarrow> MInf | NaN \<Rightarrow> NaN)
      else fdiv rnd a b)"

text \<open>
  \<^verbatim>\<open>a / b\<close> of two ints: a zero divisor raises, the quotient is the exact one rounded
  once, and a quotient too large for a float raises OverflowError.
\<close>

definition int_truediv :: "(real \<Rightarrow> pyfloat) \<Rightarrow> int \<Rightarrow> int \<Rightarrow> error + pyfloat" where
  "int_truediv rnd a b =
     (if b = 0 then Inl ZeroDivisionError
      else (case rnd (real_of_int a / real_of_int b) of
              Finite q \<Rightarrow> Inr (Finite q)
            | _ \<Rightarrow> Inl OverflowError))"

definition total_events :: "tally \<Rightarrow> int" where
  "total_events event_counts = sum_list (map snd event_counts)"

text \<open>
  \<^verbatim>\<open>np.mean\<close> and \<^verbatim>\<open>np.std\<close> are numpy's (their order of summation is not the
  script's business), so they are parameters \<open>np_mean\<close> and \<open>np_std\<close> of the scoring.
\<close>

definition fl_success_rate ::
  "(real \<Rightarrow> pyfloat) \<Rightarrow> (pyfloat list \<Rightarrow> pyfloat) \<Rightarrow> fl_trial_result list \<Rightarrow> pyfloat" where
  "fl_success_rate rnd np_mean sim_data =
     fmul rnd (np_mean (map (\<lambda>s. if f_succes s then Finite 1 else Finite 0) sim_data))
       (Finite 100)"

definition fl_average_lifetime ::
  "(pyfloat list \<Rightarrow> pyfloat) \<Rightarrow> fl_trial_result list \<Rightarrow> pyfloat" where
  "fl_average_lifetime np_mean sim_data =
     np_mean (map (\<lambda>s. Finite (real (f_duree s))) sim_data)"

definition fl_std_dev_cash ::
  "(pyfloat list \<Rightarrow> pyfloat) \<Rightarrow> fl_trial_result list \<Rightarrow> pyfloat" where
  "fl_std_dev_cash np_std sim_data = np_std (map f_cash_final sim_data)"

text \<open>\<^verbatim>\<open>min(5, round(success_rate / 20))\<close>.\<close>

definition fl_robust_score ::
  "(real \<Rightarrow> pyfloat) \<Rightarrow> (pyfloat list \<Rightarrow> pyfloat) \<Rightarrow> fl_trial_result list \<Rightarrow> error + int" where
  "fl_robust_score rnd np_mean sim_data =
     (case py_round_float (fdiv rnd (fl_success_rate rnd np_mean sim_data) (Finite 20)) of
        Inl e \<Rightarrow> Inl e
      | Inr r \<Rightarrow> Inr (min 5 r))"

text \<open>
  \<^verbatim>\<open>min(5, round(average_lifetime / (total_months / 5)))\<close>; the divisor is a quotient
  of two ints, the dividend a float64 of numpy.
\<close>

definition fl_resilience_score ::
  "(real \<Rightarrow> pyfloat) \<Rightarrow> (pyfloat list \<Rightarrow> pyfloat) \<Rightarrow> params \<Rightarrow> fl_trial_result list \<Rightarrow>
   error + int" where
  "fl_resilience_score rnd np_mean p sim_data =
     (case int_truediv rnd (total_months p) 5 of
        Inl e \<Rightarrow> Inl e
      | Inr d \<Rightarrow>
          (case py_round_float (np_div rnd (fl_average_lifetime np_mean sim_data) d) of
             Inl e \<Rightarrow> Inl e
           | Inr r \<Rightarrow> Inr (min 5 r)))"

text \<open>\<^verbatim>\<open>5 - min(5, int(std_dev_cash / 10000))\<close>.\<close>

definition fl_stability_score ::
  "(real \<Rightarrow> pyfloat) \<Rightarrow> (pyfloat list \<Rightarrow> pyfloat) \<Rightarrow> fl_trial_result list \<Rightarrow> error + int" where
  "fl_stability_score rnd np_std sim_data =
     (case py_int_float (fdiv rnd (fl_std_dev_cash np_std sim_data) (Finite 10000)) of
        Inl e \<Rightarrow> Inl e
      | Inr k \<Rightarrow> Inr (5 - min 5 k))"

text \<open>
  \<^verbatim>\<open>max(0, 5 - round(total_events / num_simulations * 5))\<close>: a quotient of two
  ints, times the int 5.
\<close>

definition fl_vulnerability_score :: "(real \<Rightarrow> pyfloat) \<Rightarrow> params \<Rightarrow> tally \<Rightarrow> error + int" where
  "fl_vulnerability_score rnd p event_counts =
     (case int_truediv rnd (total_events event_counts) (num_simulations p) of
        Inl e \<Rightarrow> Inl e
      | Inr q \<Rightarrow>
          (case py_round_float (fmul rnd q (Finite 5)) of
             Inl e \<Rightarrow> Inl e
           | Inr r \<Rightarrow> Inr (max 0 (5 - r))))"

record scores =
  robust :: int
  resilience :: int
  stability :: int
  vulnerability :: int
  total :: int

text \<open>The four scores in the order the script computes them, and their sum.\<close>

definition fl_strategic_scores ::
  "(real \<Rightarrow> pyfloat) \<Rightarrow> (pyfloat list \<Rightarrow> pyfloat) \<Rightarrow> (pyfloat list \<Rightarrow> pyfloat) \<Rightarrow> params \<Rightarrow>
   fl_trial_result list \<Rightarrow> tally \<Rightarrow> error + scores" where
  "fl_strategic_scores rnd np_mean np_std p sim_data event_counts =
     (case fl_robust_score rnd np_mean sim_data of
        Inl e \<Rightarrow> Inl e
      | Inr r1 \<Rightarrow>
          (case fl_resilience_score rnd np_mean p sim_data of
             Inl e \<Rightarrow> Inl e
           | Inr r2 \<Rightarrow>
               (case fl_stability_score rnd np_std sim_data of
                  Inl e \<Rightarrow> Inl e
                | Inr r3 \<Rightarrow>
                    (case fl_vulnerability_score rnd p event_counts of
                       Inl e \<Rightarrow> Inl e
                     | Inr r4 \<Rightarrow>
                         Inr \<lparr>robust = r1, resilience = r2, stability = r3,
                              vulnerability = r4, total = r1 + r2 + r3 + r4\<rparr>))))"

subsection \<open>What the statements ask of the rounding and of numpy\<close>

text \<open>
  A float is not negative when it is not below zero: a finite number from 0 on, the
  positive infinity, or NaN. A rounding keeps the sign when it sends no number from 0 on
  below zero. Of numpy the scoring needs that the mean of numbers that are not negative
  is not negative, and that a standard deviation is never negative.
\<close>

definition not_neg :: "pyfloat \<Rightarrow> bool" where
  "not_neg v = (\<not> flt v (Finite 0))"

definition sign_keeping :: "(real \<Rightarrow> pyfloat) \<Rightarrow> bool" where
  "sign_keeping rnd = (\<forall>x. 0 \<le> x \<longrightarrow> not_neg (rnd x))"

definition mean_keeps_sign :: "(pyfloat list \<Rightarrow> pyfloat) \<Rightarrow> bool" where
  "mean_keeps_sign np_mean = (\<forall>xs. list_all not_neg xs \<longrightarrow> not_neg (np_mean xs))"

definition std_not_negative :: "(pyfloat list \<Rightarrow> pyfloat) \<Rightarrow> bool" where
  "std_not_negative np_std = (\<forall>xs. not_neg (np_std xs))"

text \<open>
  A mean and a standard deviation for the worked examples, summing from left to right:
  the mean of no number is NaN, the deviation is the root of the mean of the squared
  distances to the mean.
\<close>

definition plain_mean :: "(real \<Rightarrow> pyfloat) \<Rightarrow> pyfloat list \<Rightarrow> pyfloat" where
  "plain_mean rnd xs =
     (if xs = [] then NaN else fdiv rnd (py_sum rnd xs) (Finite (real (length xs))))"

fun fsqrt :: "(real \<Rightarrow> pyfloat) \<Rightarrow> pyfloat \<Rightarrow> pyfloat" where
  "fsqrt rnd (Finite x) = (if x < 0 then NaN else rnd (sqrt x))"
| "fsqrt rnd PInf = PInf"
| "fsqrt rnd a = NaN"

definition plain_std :: "(real \<Rightarrow> pyfloat) \<Rightarrow> pyfloat list \<Rightarrow> pyfloat" where
  "plain_std rnd xs =
     (let m = plain_mean rnd xs
      in fsqrt rnd (plain_mean rnd
           (map (\<lambda>x. fmul rnd (fsub rnd x m) (fsub rnd x m)) xs)))"

subsection \<open>The month body on floats, in parts\<close>

definition fl_shock_draw ::
  "(real \<Rightarrow> pyfloat) \<Rightarrow> ('g \<Rightarrow> real \<times> 'g) \<Rightarrow> params \<Rightarrow> 'g \<Rightarrow> bool" where
  "fl_shock_draw rnd rand p g =
     flt (Finite (fst (rand g))) (fdiv rnd (Finite (market_shock_prob p)) (Finite 100))"

definition fl_event_draw ::
  "(real \<Rightarrow> pyfloat) \<Rightarrow> ('g \<Rightarrow> real \<times> 'g) \<Rightarrow> ('g \<Rightarrow> event \<times> 'g) \<Rightarrow> params \<Rightarrow> 'g \<Rightarrow>
   event option" where
  "fl_event_draw rnd rand choice p g =
     (if flt (Finite (fst (rand (snd (rand g)))))
           (fdiv rnd (Finite (event_chance p)) (Finite 100))
      then Some (fst (choice (snd (rand (snd (rand g)))))) else None)"

definition fl_after_draws ::
  "(real \<Rightarrow> pyfloat) \<Rightarrow> ('g \<Rightarrow> real \<times> 'g) \<Rightarrow> ('g \<Rightarrow> event \<times> 'g) \<Rightarrow> params \<Rightarrow> 'g \<Rightarrow> 'g" where
  "fl_after_draws rnd rand choice p g =
     (if flt (Finite (fst (rand (snd (rand g)))))
           (fdiv rnd (Finite (event_chance p)) (Finite 100))
      then snd (choice (snd (rand (snd (rand g))))) else snd (rand (snd (rand g))))"

definition fl_base_growth :: "(real \<Rightarrow> pyfloat) \<Rightarrow> fl_trial_state \<Rightarrow> bool \<Rightarrow> pyfloat" where
  "fl_base_growth rnd st shk =
     fmul rnd (fdiv rnd (f_growth_rate st) (Finite 100)) (if shk then rnd 0.5 else rnd 1.0)"

definition fl_competitor_step ::
  "(real \<Rightarrow> pyfloat) \<Rightarrow> (pyfloat list \<Rightarrow> pyfloat) \<Rightarrow> params \<Rightarrow> fl_trial_state \<Rightarrow> bool \<Rightarrow> error + (pyfloat list \<times> pyfloat)" where
  "fl_competitor_step rnd fsum p st shk =
     (if wargame_mode p
      then fl_competitor_loop rnd fsum (f_clients st) 0 (competitors p) (f_comp_clients st)
             (fl_base_growth rnd st shk)
      else Inr (f_comp_clients st, fl_base_growth rnd st shk))"

definition fl_event_opt ::
  "(real \<Rightarrow> pyfloat) \<Rightarrow> event option \<Rightarrow> fl_trial_state \<Rightarrow> fl_trial_state" where
  "fl_event_opt rnd evo st = (case evo of None \<Rightarrow> st | Some ev \<Rightarrow> fl_apply_event rnd ev st)"

definition fl_month_update ::
  "(real \<Rightarrow> pyfloat) \<Rightarrow> params \<Rightarrow> nat \<Rightarrow> bool \<Rightarrow> event option \<Rightarrow> pyfloat list \<Rightarrow> pyfloat \<Rightarrow>
   fl_trial_state \<Rightarrow> fl_trial_state" where
  "fl_month_update rnd p month shk evo cc eg st =
     (let st2 = fl_event_opt rnd evo (st\<lparr>f_comp_clients := cc\<rparr>);
          clients' =
            fadd rnd (fmul rnd (f_clients st2) (fdiv rnd (f_retention st2) (Finite 100)))
              (fmul rnd (f_clients st2) eg);
          cash' =
            fadd rnd (f_cash st2)
              (fsub rnd (fmul rnd clients' (Finite 10)) (Finite (burn_rate p)))
      in st2\<lparr>f_cash := cash', f_clients := clients',
             f_history := f_history st2 @
               [\<lparr>f_mois = month + 1, f_row_cash = cash', f_row_clients = clients',
                 f_shock = shk, f_event = evo,
                 f_competitor_clients = f_comp_clients st2\<rparr>]\<rparr>)"

subsection \<open>The recurrence as the script computes it\<close>

text \<open>
  Without shock, event and competitor a month computes
  \<open>clients * (retention / 100) + clients * (growth_rate / 100 * 1.0)\<close>, then
  \<open>cash + (clients * 10 - burn_rate)\<close>, each operation rounded, and the trial stops at the
  first month, up to the horizon, whose cash is below zero.
\<close>

primrec rounded_clients :: "(real \<Rightarrow> pyfloat) \<Rightarrow> real \<Rightarrow> real \<Rightarrow> nat \<Rightarrow> pyfloat" where
  "rounded_clients rnd gi ri 0 = Finite 100"
| "rounded_clients rnd gi ri (Suc m) =
     fadd rnd
       (fmul rnd (rounded_clients rnd gi ri m) (fdiv rnd (Finite ri) (Finite 100)))
       (fmul rnd (rounded_clients rnd gi ri m)
          (fmul rnd (fdiv rnd (Finite gi) (Finite 100)) (rnd 1.0)))"

primrec rounded_cash :: "(real \<Rightarrow> pyfloat) \<Rightarrow> params \<Rightarrow> real \<Rightarrow> real \<Rightarrow> nat \<Rightarrow> pyfloat" where
  "rounded_cash rnd p gi ri 0 = Finite (cash_start p)"
| "rounded_cash rnd p gi ri (Suc m) =
     fadd rnd (rounded_cash rnd p gi ri m)
       (fsub rnd (fmul rnd (rounded_clients rnd gi ri (Suc m)) (Finite 10))
          (Finite (burn_rate p)))"

definition rounded_row ::
  "(real \<Rightarrow> pyfloat) \<Rightarrow> params \<Rightarrow> real \<Rightarrow> real \<Rightarrow> nat \<Rightarrow> fl_month_record" where
  "rounded_row rnd p gi ri m =
     \<lparr>f_mois = m, f_row_cash = rounded_cash rnd p gi ri m,
      f_row_clients = rounded_clients rnd gi ri m,
      f_shock = False, f_event = None, f_competitor_clients = []\<rparr>"

definition rounded_stop ::
  "(real \<Rightarrow> pyfloat) \<Rightarrow> params \<Rightarrow> real \<Rightarrow> real \<Rightarrow> nat \<Rightarrow> nat \<Rightarrow> nat" where
  "rounded_stop rnd p gi ri k h =
     (case find (\<lambda>m. flt (rounded_cash rnd p gi ri m) (Finite 0)) [Suc k..<Suc h] of
        None \<Rightarrow> h
      | Some m \<Rightarrow> m)"

definition rounded_state ::
  "(real \<Rightarrow> pyfloat) \<Rightarrow> params \<Rightarrow> real \<Rightarrow> real \<Rightarrow> nat \<Rightarrow> fl_trial_state" where
  "rounded_state rnd p gi ri m =
     \<lparr>f_cash = rounded_cash rnd p gi ri m, f_clients = rounded_clients rnd gi ri m,
      f_growth_rate = Finite gi, f_retention = Finite ri, f_comp_clients = [],
      f_history = map (rounded_row rnd p gi ri) [1..<Suc m]\<rparr>"

definition rounded_trial ::
  "(real \<Rightarrow> pyfloat) \<Rightarrow> params \<Rightarrow> real \<Rightarrow> real \<Rightarrow> fl_trial_result" where
  "rounded_trial rnd p gi ri =
     (let d = rounded_stop rnd p gi ri 0 (nat (total_months p))
      in \<lparr>f_succes = flt (Finite 0) (rounded_cash rnd p gi ri d),
          f_cash_final = rounded_cash rnd p gi ri d,
          f_duree = d, f_data = map (rounded_row rnd p gi ri) [1..<Suc d]\<rparr>)"

subsection \<open>The rounding of binary64\<close>

text \<open>
  \<open>binade x\<close> is the exponent \<open>e\<close> with \<open>2^e \<le> |x| < 2^(e+1)\<close>, read off the bit length
  of the integer part (of the reciprocal, below 1). A binary64 number has 53 significant
  bits, so in that binade the numbers are the multiples of \<open>2^(e-52)\<close>; below \<open>2^-1022\<close>
  the spacing stays \<open>2^-1074\<close> (subnormal numbers), and a result that rounds to \<open>2^1024\<close>
  or beyond is an infinity. Rounding is to the nearest multiple, a tie going to the even
  one, which is what \<^const>\<open>py_round\<close> does on the quotient by the spacing.
\<close>

definition binade :: "real \<Rightarrow> int" where
  "binade x =
     (if 1 \<le> \<bar>x\<bar> then bitlen \<lfloor>\<bar>x\<bar>\<rfloor> - 1 else - bitlen (\<lceil>1 / \<bar>x\<bar>\<rceil> - 1))"

definition b64 :: "real \<Rightarrow> pyfloat" where
  "b64 x =
     (if x = 0 then Finite 0
      else
        let ulp = 2 powi (max (binade x) (- 1022) - 52);
            q = of_int (py_round (x / ulp)) * ulp
        in if 2 powi 1024 \<le> \<bar>q\<bar> then (if 0 < x then PInf else MInf) else Finite q)"
subsection \<open>Parameters that are floats\<close>

text \<open>
  The script takes its parameters from sliders, which give ints that binary64 represents
  exactly. The float embedding is the script's arithmetic for such parameters, and for
  any that are floats: \<open>is_float rnd x\<close> says that the rounding leaves \<open>x\<close> as it is.
  (An int that is no float is converted, with a rounding of its own, at its first
  operation with a float, and one beyond the largest float raises OverflowError there.)
  The horizon and the number of trials are ints.
\<close>

definition is_float :: "(real \<Rightarrow> pyfloat) \<Rightarrow> real \<Rightarrow> bool" where
  "is_float rnd x = (rnd x = Finite x)"

definition float_inputs :: "(real \<Rightarrow> pyfloat) \<Rightarrow> params \<Rightarrow> real \<Rightarrow> real \<Rightarrow> bool" where
  "float_inputs rnd p growth_rate_init retention_init =
     (is_float rnd (cash_start p) \<and> is_float rnd (burn_rate p)
      \<and> is_float rnd (market_shock_prob p) \<and> is_float rnd (event_chance p)
      \<and> is_float rnd growth_rate_init \<and> is_float rnd retention_init
      \<and> list_all (\<lambda>c. is_float rnd (growth c) \<and> is_float rnd (aggressiveness c))
           (competitors p))"

subsection \<open>Worked examples on binary64\<close>

text \<open>
  Slider values at which the exact recurrence ends the first month with a cash of exactly
  zero: 1000 of cash, a burn rate of 3500, a growth of 232 and a retention of 18, so that
  the clients are 250 and the revenue 2500. On binary64 the script computes
  \<open>100 * (18 / 100) + 100 * (232 / 100 * 1.0)\<close>, which is the float just below 250, and
  a cash of \<open>- 2^-41\<close>: the trial stops there, a failure after one month.
\<close>

definition knife_params :: params where
  "knife_params =
     \<lparr>cash_start = 1000, burn_rate = 3500, market_shock_prob = 0, event_chance = 0,
      wargame_mode = False, competitors = [], total_months = 6, num_simulations = 100\<rparr>"

definition knife_trial :: fl_trial_result where
  "knife_trial =
     \<lparr>f_succes = False, f_cash_final = Finite (- (1 / 2 ^ 41)), f_duree = 1,
      f_data = [\<lparr>f_mois = 1, f_row_cash = Finite (- (1 / 2 ^ 41)),
                  f_row_clients = Finite (250 - 1 / 2 ^ 45), f_shock = False,
                  f_event = None, f_competitor_clients = []\<rparr>]\<rparr>"

text \<open>
  The trace of \<^const>\<open>example_params\<close> on binary64 with no growth and a retention of
  200, which is outside its range: the clients double every month.
\<close>

definition doubling_trial :: fl_trial_result where
  "doubling_trial =
     \<lparr>f_succes = True, f_cash_final = Finite 19000, f_duree = 3,
      f_data = [\<lparr>f_mois = 1, f_row_cash = Finite 17000, f_row_clients = Finite 200,
                  f_shock = False, f_event = None, f_competitor_clients = []\<rparr>,
                \<lparr>f_mois = 2, f_row_cash = Finite 16000, f_row_clients = Finite 400,
                  f_shock = False, f_event = None, f_competitor_clients = []\<rparr>,
                \<lparr>f_mois = 3, f_row_cash = Finite 19000, f_row_clients = Finite 800,
                  f_shock = False, f_event = None, f_competitor_clients = []\<rparr>]\<rparr>"

text \<open>
  A company that keeps every client and gains none (growth 0, retention 100), over five
  months and one trial: every number of the trace is an integer, and the four scores are
  5 each.
\<close>

definition level_params :: params where
  "level_params =
     \<lparr>cash_start = 20000, burn_rate = 500, market_shock_prob = 0, event_chance = 0,
      wargame_mode = False, competitors = [], total_months = 5, num_simulations = 1\<rparr>"

definition level_trial :: fl_trial_result where
  "level_trial =
     \<lparr>f_succes = True, f_cash_final = Finite 22500, f_duree = 5,
      f_data = [\<lparr>f_mois = 1, f_row_cash = Finite 20500, f_row_clients = Finite 100,
                  f_shock = False, f_event = None, f_competitor_clients = []\<rparr>,
                \<lparr>f_mois = 2, f_row_cash = Finite 21000, f_row_clients = Finite 100,
                  f_shock = False, f_event = None, f_competitor_clients = []\<rparr>,
                \<lparr>f_mois = 3, f_row_cash = Finite 21500, f_row_clients = Finite 100,
                  f_shock = False, f_event = None, f_competitor_clients = []\<rparr>,
                \<lparr>f_mois = 4, f_row_cash = Finite 22000, f_row_clients = Finite 100,
                  f_shock = False, f_event = None, f_competitor_clients = []\<rparr>,
                \<lparr>f_mois = 5, f_row_cash = Finite 22500, f_row_clients = Finite 100,
                  f_shock = False, f_event = None, f_competitor_clients = []\<rparr>]\<rparr>"

definition level_scores :: scores where
  "level_scores =
     \<lparr>robust = 5, resilience = 5, stability = 5, vulnerability = 5, total = 20\<rparr>"


section \<open>Lemmas about the loops\<close>

lemma month_body_eq:
  "month_body rand choice p month (st, ec, g) =
     (case competitor_step p st (shock_draw rand p g) of
        Inl e \<Rightarrow> Inl e
      | Inr (cc, eg) \<Rightarrow>
          Inr (month_update p month (shock_draw rand p g) (event_draw rand choice p g) cc eg st,
               count_opt ec (event_draw rand choice p g), after_draws rand choice p g))"
  by (simp add: month_body_def month_update_def competitor_step_def shock_draw_def
      event_draw_def after_draws_def count_opt_def event_opt_def Let_def
      split: prod.splits sum.splits)

lemma apply_event_frame [simp]:
  "history (apply_event ev st) = history st"
  "clients (apply_event ev st) = clients st"
  "comp_clients (apply_event ev st) = comp_clients st"
  by (simp_all add: apply_event_def)

lemma event_opt_frame [simp]:
  "history (event_opt evo st) = history st"
  "clients (event_opt evo st) = clients st"
  "comp_clients (event_opt evo st) = comp_clients st"
  by (simp_all add: event_opt_def split: option.splits)

lemma month_update_history:
  "history (month_update p month shk evo cc eg st) =
     history st @ [\<lparr>h_mois = month + 1,
                     h_cash = cash (month_update p month shk evo cc eg st),
                     h_clients = clients (month_update p month shk evo cc eg st),
                     h_shock = shk, h_event = evo, h_competitor_clients = cc\<rparr>]"
  by (simp add: month_update_def Let_def)

lemma month_body_row:
  assumes "month_body rand choice p month (st, ec, g) = Inr (st', ec', g')"
  shows "\<exists>row. history st' = history st @ [row] \<and> h_cash row = cash st'
           \<and> h_clients row = clients st' \<and> h_mois row = Suc month"
proof -
  from assms obtain cc eg where
    "st' = month_update p month (shock_draw rand p g) (event_draw rand choice p g) cc eg st"
    by (auto simp: month_body_eq split: sum.splits)
  then show ?thesis
    using month_update_history[of p month "shock_draw rand p g" "event_draw rand choice p g" cc eg st]
    by simp
qed

lemma run_months_rows:
  assumes "run_months rand choice p ms s = Inr s'"
  shows "\<exists>rows. history (fst s') = history (fst s) @ rows
           \<and> length rows \<le> length ms
           \<and> map h_mois rows = map Suc (take (length rows) ms)
           \<and> (\<forall>i. Suc i < length rows \<longrightarrow> 0 \<le> h_cash (rows ! i))
           \<and> (rows \<noteq> [] \<longrightarrow> h_cash (last rows) = cash (fst s'))
           \<and> (rows = [] \<longrightarrow> s' = s)
           \<and> (length rows < length ms \<longrightarrow> cash (fst s') < 0 \<and> rows \<noteq> [])"
  using assms
proof (induction ms arbitrary: s)
  case Nil
  then show ?case by simp
next
  case (Cons month rest)
  obtain st ec g where s: "s = (st, ec, g)" by (cases s)
  from Cons.prems obtain s1 where mb: "month_body rand choice p month s = Inr s1"
    by (auto split: sum.splits)
  obtain st1 ec1 g1 where s1: "s1 = (st1, ec1, g1)" by (cases s1)
  from month_body_row[OF mb[unfolded s s1]] obtain row where
    row: "history st1 = history st @ [row]" "h_cash row = cash st1" "h_mois row = Suc month"
    by blast
  show ?case
  proof (cases "cash st1 < 0")
    case True
    with Cons.prems mb s1 have "s' = s1" by simp
    with row s s1 True show ?thesis
      by (intro exI[of _ "[row]"]) simp
  next
    case False
    with Cons.prems mb s1 have "run_months rand choice p rest s1 = Inr s'" by simp
    from Cons.IH[OF this] obtain rows where
      rows: "history (fst s') = history (fst s1) @ rows"
        "length rows \<le> length rest"
        "map h_mois rows = map Suc (take (length rows) rest)"
        "\<forall>i. Suc i < length rows \<longrightarrow> 0 \<le> h_cash (rows ! i)"
        "rows \<noteq> [] \<longrightarrow> h_cash (last rows) = cash (fst s')"
        "rows = [] \<longrightarrow> s' = s1"
        "length rows < length rest \<longrightarrow> cash (fst s') < 0 \<and> rows \<noteq> []"
      by blast
    have nth: "\<forall>i. Suc i < length (row # rows) \<longrightarrow> 0 \<le> h_cash ((row # rows) ! i)"
    proof (intro allI impI)
      fix i assume "Suc i < length (row # rows)"
      then show "0 \<le> h_cash ((row # rows) ! i)"
        using rows(4) row(2) False by (cases i) auto
    qed
    have last: "h_cash (last (row # rows)) = cash (fst s')"
      using rows(5,6) row(2) s1 by (cases "rows = []") auto
    have c1: "history (fst s') = history (fst s) @ row # rows"
      using rows(1) row(1) s s1 by simp
    have c2: "length (row # rows) \<le> length (month # rest)" using rows(2) by simp
    have c3: "map h_mois (row # rows) = map Suc (take (length (row # rows)) (month # rest))"
      using rows(3) row(3) by simp
    have c7: "length (row # rows) < length (month # rest) \<longrightarrow> cash (fst s') < 0 \<and> row # rows \<noteq> []"
      using rows(7) by simp
    show ?thesis
      using c1 c2 c3 nth last c7 by blast
  qed
qed

lemma length_py_range [simp]: "length (py_range n) = nat n"
  by (simp add: py_range_def)

lemma run_trial_result:
  assumes "run_trial rand choice p gi ri s = Inr (r, s')"
  shows "succes r = (0 < cash_final r)"
    and "duree r = length (data r)"
    and "length (data r) \<le> nat (total_months p)"
    and "map h_mois (data r) = map Suc [0..<length (data r)]"
    and "\<forall>i. Suc i < length (data r) \<longrightarrow> 0 \<le> h_cash (data r ! i)"
    and "data r \<noteq> [] \<longrightarrow> cash_final r = h_cash (last (data r))"
    and "data r = [] \<longrightarrow> cash_final r = cash_start p"
    and "length (data r) < nat (total_months p) \<longrightarrow> cash_final r < 0 \<and> data r \<noteq> []"
proof -
  obtain ec g where s: "s = (ec, g)" by (cases s)
  define st0 where "st0 = \<lparr>cash = cash_start p, clients = 100, growth_rate = gi,
     retention = ri, comp_clients = map (\<lambda>_. 100) (competitors p), history = []\<rparr>"
  from assms obtain st ec' g' where
    rm: "run_months rand choice p (py_range (total_months p)) (st0, ec, g) = Inr (st, ec', g')"
    and r: "r = \<lparr>succes = 0 < cash st, cash_final = cash st,
                 duree = length (history st), data = history st\<rparr>"
    by (auto simp: run_trial_def s st0_def Let_def split: sum.splits)
  from run_months_rows[OF rm] obtain rows where
    rows: "history st = rows"
      "length rows \<le> nat (total_months p)"
      "map h_mois rows = map Suc (take (length rows) (py_range (total_months p)))"
      "\<forall>i. Suc i < length rows \<longrightarrow> 0 \<le> h_cash (rows ! i)"
      "rows \<noteq> [] \<longrightarrow> h_cash (last rows) = cash st"
      "rows = [] \<longrightarrow> (st, ec', g') = (st0, ec, g)"
      "length rows < nat (total_months p) \<longrightarrow> cash st < 0 \<and> rows \<noteq> []"
    by (auto simp: st0_def)
  show "succes r = (0 < cash_final r)" "duree r = length (data r)" by (simp_all add: r)
  show "length (data r) \<le> nat (total_months p)" using rows(1,2) by (simp add: r)
  have "take (length rows) (py_range (total_months p)) = [0..<length rows]"
    using rows(2) by (simp add: py_range_def take_upt)
  then show "map h_mois (data r) = map Suc [0..<length (data r)]"
    using rows(1,3) by (simp add: r)
  show "\<forall>i. Suc i < length (data r) \<longrightarrow> 0 \<le> h_cash (data r ! i)"
    using rows(1,4) by (simp add: r)
  show "data r \<noteq> [] \<longrightarrow> cash_final r = h_cash (last (data r))"
    using rows(1,5) by (simp add: r)
  show "data r = [] \<longrightarrow> cash_final r = cash_start p"
    using rows(1,6) by (auto simp: r st0_def)
  show "length (data r) < nat (total_months p) \<longrightarrow> cash_final r < 0 \<and> data r \<noteq> []"
    using rows(1,7) by (simp add: r)
qed

lemma run_trials_results:
  assumes "run_trials rand choice p gi ri ns (results, ec, g) = Inr (results', ec', g')"
  shows "\<exists>new. results' = results @ new \<and> length new = length ns
           \<and> (\<forall>r\<in>set new. \<exists>s s'. run_trial rand choice p gi ri s = Inr (r, s'))"
  using assms
proof (induction ns arbitrary: results ec g)
  case Nil
  then show ?case by simp
next
  case (Cons n rest)
  from Cons.prems obtain r ec1 g1 where
    rt: "run_trial rand choice p gi ri (ec, g) = Inr (r, ec1, g1)"
    and rec: "run_trials rand choice p gi ri rest (results @ [r], ec1, g1) = Inr (results', ec', g')"
    by (auto split: sum.splits)
  from Cons.IH[OF rec] obtain new where
    new: "results' = (results @ [r]) @ new" "length new = length rest"
      "\<forall>r\<in>set new. \<exists>s s'. run_trial rand choice p gi ri s = Inr (r, s')"
    by blast
  have "\<forall>x\<in>set (r # new). \<exists>s s'. run_trial rand choice p gi ri s = Inr (x, s')"
    using new(3) rt by auto
  with new(1,2) show ?case
    by (intro exI[of _ "r # new"]) simp
qed

lemma run_simulation_results:
  assumes "run_simulation rand choice p gi ri g = Inr (results, ec)"
  shows "length results = nat (num_simulations p)"
    and "\<forall>r\<in>set results. \<exists>s s'. run_trial rand choice p gi ri s = Inr (r, s')"
proof -
  from assms obtain g' where
    "run_trials rand choice p gi ri (py_range (num_simulations p)) ([], [], g) = Inr (results, ec, g')"
    by (auto simp: run_simulation_def split: sum.splits)
  from run_trials_results[OF this]
  show "length results = nat (num_simulations p)"
    and "\<forall>r\<in>set results. \<exists>s s'. run_trial rand choice p gi ri s = Inr (r, s')"
    by auto
qed

section \<open>Lemmas about the tally\<close>

lemma update_set: "set (AList.update k v al) \<subseteq> insert (k, v) (set al)"
  by (induction al) auto

lemma count_event_ok:
  assumes "tally_ok ec"
  shows "tally_ok (count_event ec ev)"
proof -
  have "0 \<le> (case map_of ec ev of None \<Rightarrow> 0 | Some c \<Rightarrow> c) + 1"
  proof (cases "map_of ec ev")
    case None
    then show ?thesis by simp
  next
    case (Some c)
    then have "(ev, c) \<in> set ec" by (rule map_of_SomeD)
    with assms have "0 \<le> c" by (auto simp: tally_ok_def list_all_iff)
    with Some show ?thesis by simp
  qed
  with assms update_set[of ev _ ec] show ?thesis
    unfolding tally_ok_def list_all_iff count_event_def by fastforce
qed

lemma count_opt_ok: "tally_ok ec \<Longrightarrow> tally_ok (count_opt ec evo)"
  by (cases evo) (simp_all add: count_opt_def count_event_ok)

section \<open>Lemmas about events and shocks\<close>

lemma event_opt_table:
  "growth_rate (event_opt evo st) = growth_rate st * growth_factor evo"
  "retention (event_opt evo st) = retention st * retention_factor evo"
  "cash (event_opt evo st) = cash st + cash_bonus evo"
  by (auto simp: event_opt_def apply_event_def growth_factor_def retention_factor_def
      cash_bonus_def split: option.splits event.splits)

lemma month_update_table:
  "growth_rate (month_update p month shk evo cc eg st) = growth_rate st * growth_factor evo"
  "retention (month_update p month shk evo cc eg st) = retention st * retention_factor evo"
  "comp_clients (month_update p month shk evo cc eg st) = cc"
  "clients (month_update p month shk evo cc eg st) =
     clients st * (retention st * retention_factor evo / 100) + clients st * eg"
  "cash (month_update p month shk evo cc eg st) =
     cash st + cash_bonus evo
       + (clients (month_update p month shk evo cc eg st) * 10 - burn_rate p)"
  by (simp_all add: month_update_def Let_def event_opt_table)

lemma month_body_Inr:
  assumes "month_body rand choice p month (st, ec, g) = Inr (st', ec', g')"
  obtains cc eg where
    "competitor_step p st (shock_draw rand p g) = Inr (cc, eg)"
    "st' = month_update p month (shock_draw rand p g) (event_draw rand choice p g) cc eg st"
    "ec' = count_opt ec (event_draw rand choice p g)"
    "g' = after_draws rand choice p g"
  using assms by (auto simp: month_body_eq split: sum.splits)

lemma run_months_modifiers:
  assumes "run_months rand choice p ms s = Inr s'"
  shows "\<exists>rows. history (fst s') = history (fst s) @ rows
           \<and> growth_rate (fst s') =
               growth_rate (fst s) * prod_list (map (\<lambda>r. growth_factor (h_event r)) rows)
           \<and> retention (fst s') =
               retention (fst s) * prod_list (map (\<lambda>r. retention_factor (h_event r)) rows)"
  using assms
proof (induction ms arbitrary: s)
  case Nil
  then show ?case by simp
next
  case (Cons month rest)
  obtain st ec g where s: "s = (st, ec, g)" by (cases s)
  from Cons.prems obtain s1 where mb: "month_body rand choice p month s = Inr s1"
    by (auto split: sum.splits)
  obtain st1 ec1 g1 where s1: "s1 = (st1, ec1, g1)" by (cases s1)
  from mb[unfolded s s1] obtain cc eg where
    st1: "st1 = month_update p month (shock_draw rand p g) (event_draw rand choice p g) cc eg st"
    by (rule month_body_Inr)
  define row where "row = \<lparr>h_mois = month + 1, h_cash = cash st1, h_clients = clients st1,
     h_shock = shock_draw rand p g, h_event = event_draw rand choice p g,
     h_competitor_clients = cc\<rparr>"
  have h1: "history st1 = history st @ [row]"
    unfolding st1 row_def by (rule month_update_history)
  have g1: "growth_rate st1 = growth_rate st * growth_factor (h_event row)"
    and r1: "retention st1 = retention st * retention_factor (h_event row)"
    by (simp_all add: st1 row_def month_update_table)
  have one: "\<exists>rows. history st1 = history st @ rows
           \<and> growth_rate st1 = growth_rate st * prod_list (map (\<lambda>r. growth_factor (h_event r)) rows)
           \<and> retention st1 = retention st * prod_list (map (\<lambda>r. retention_factor (h_event r)) rows)"
    using h1 g1 r1 by (intro exI[of _ "[row]"]) simp
  show ?case
  proof (cases "cash st1 < 0")
    case True
    with Cons.prems mb s1 have "s' = s1" by simp
    with one s s1 show ?thesis by simp
  next
    case False
    with Cons.prems mb s1 have "run_months rand choice p rest s1 = Inr s'" by simp
    from Cons.IH[OF this] obtain rows where
      rows: "history (fst s') = history (fst s1) @ rows"
        "growth_rate (fst s') =
           growth_rate (fst s1) * prod_list (map (\<lambda>r. growth_factor (h_event r)) rows)"
        "retention (fst s') =
           retention (fst s1) * prod_list (map (\<lambda>r. retention_factor (h_event r)) rows)"
      by blast
    show ?thesis
      using rows h1 g1 r1 s s1 by (intro exI[of _ "row # rows"]) (simp add: mult.assoc)
  qed
qed

lemma competitor_loop_scale:
  "competitor_loop cl i cs cc (k * eg) =
     (case competitor_loop cl i cs cc eg of
        Inl e \<Rightarrow> Inl e
      | Inr (cc', eg') \<Rightarrow> Inr (cc', k * eg'))"
proof (induction cs arbitrary: i cc eg)
  case Nil
  show ?case by simp
next
  case (Cons c cs)
  show ?case
    by (simp add: Let_def Cons.IH[symmetric] mult.assoc)
qed

lemma competitor_step_shock:
  "competitor_step p st True =
     (case competitor_step p st False of
        Inl e \<Rightarrow> Inl e
      | Inr (cc, eg) \<Rightarrow> Inr (cc, eg / 2))"
proof (cases "wargame_mode p")
  case True
  have "competitor_loop (clients st) 0 (competitors p) (comp_clients st) (growth_rate st / 200)
      = competitor_loop (clients st) 0 (competitors p) (comp_clients st)
          ((1 / 2) * (growth_rate st / 100))"
    by simp
  also have "\<dots> =
     (case competitor_loop (clients st) 0 (competitors p) (comp_clients st)
             (growth_rate st / 100) of
        Inl e \<Rightarrow> Inl e
      | Inr (cc', eg') \<Rightarrow> Inr (cc', (1 / 2) * eg'))"
    by (rule competitor_loop_scale)
  finally show ?thesis
    using True by (simp add: competitor_step_def split: sum.splits)
next
  case False
  then show ?thesis by (simp add: competitor_step_def)
qed

lemma competitor_step_no_competitor:
  assumes "\<not> wargame_mode p \<or> competitors p = []"
  shows "competitor_step p st shk =
           Inr (comp_clients st, growth_rate st / 100 * (if shk then 0.5 else 1.0))"
  using assms by (auto simp: competitor_step_def)

section \<open>Lemmas about the competitor pass\<close>

lemma length_in_progress [simp]: "length (in_progress comps cc k) = length cc"
  by (simp add: in_progress_def)




section \<open>Lemmas about the rounding of binary64\<close>

text \<open>
  \<^const>\<open>py_round\<close> leaves an integer alone, \<^const>\<open>binade\<close> is the exponent of
  its argument, and so \<^const>\<open>b64\<close> within a known binade is a rounding to a known
  multiple; integers below \<open>2^53\<close> are floats.
\<close>

lemma py_round_of_int [simp]: "py_round (of_int m) = m"
  by (simp add: py_round_def)

lemma py_round_ge:
  assumes "of_int n \<le> x"
  shows "n \<le> py_round x"
proof -
  from assms have "n \<le> \<lfloor>x\<rfloor>" by (simp add: le_floor_iff)
  moreover have "\<lfloor>x\<rfloor> \<le> py_round x" by (simp add: py_round_def Let_def)
  ultimately show ?thesis by simp
qed

lemma py_round_le:
  assumes "x \<le> of_int n"
  shows "py_round x \<le> n"
proof (cases "x = of_int \<lfloor>x\<rfloor>")
  case True
  then have "py_round x = \<lfloor>x\<rfloor>" by (simp add: py_round_def)
  with assms show ?thesis by (simp add: floor_le_iff)
next
  case False
  with of_int_floor_le[of x] have "of_int \<lfloor>x\<rfloor> < x" by linarith
  with assms have "of_int \<lfloor>x\<rfloor> < (of_int n :: real)" by linarith
  then have "\<lfloor>x\<rfloor> < n" by simp
  then have "\<lfloor>x\<rfloor> + 1 \<le> n" by simp
  moreover have "py_round x \<le> \<lfloor>x\<rfloor> + 1" by (simp add: py_round_def Let_def)
  ultimately show ?thesis by simp
qed

lemma bitlen_eqI:
  assumes "2 ^ k \<le> m" and "m < 2 ^ Suc k"
  shows "bitlen m = int k + 1"
proof (rule antisym)
  show "bitlen m \<le> int k + 1"
    using assms(2) by (simp add: bitlen_le_iff_power nat_add_distrib)
  show "int k + 1 \<le> bitlen m"
    using assms(1) by (simp add: bitlen_ge_iff_power nat_add_distrib)
qed

lemma binade_big:
  assumes "2 ^ k \<le> \<bar>x\<bar>" and "\<bar>x\<bar> < 2 ^ Suc k"
  shows "binade x = int k"
proof -
  have "(1::real) \<le> 2 ^ k" by (rule one_le_power) simp
  with assms(1) have one: "1 \<le> \<bar>x\<bar>" by linarith
  have lo: "(2::int) ^ k \<le> \<lfloor>\<bar>x\<bar>\<rfloor>"
    unfolding le_floor_iff using assms(1) by simp
  have hi: "\<lfloor>\<bar>x\<bar>\<rfloor> < (2::int) ^ Suc k"
    unfolding floor_less_iff using assms(2) by simp
  have "bitlen \<lfloor>\<bar>x\<bar>\<rfloor> = int k + 1" using lo hi by (rule bitlen_eqI)
  then show ?thesis unfolding binade_def using one by simp
qed

lemma binade_small:
  assumes "1 / 2 ^ Suc k \<le> \<bar>x\<bar>" and "\<bar>x\<bar> < 1 / 2 ^ k"
  shows "binade x = - int (Suc k)"
proof -
  have "(0::real) < 1 / 2 ^ Suc k" by simp
  with assms(1) have pos: "0 < \<bar>x\<bar>" by linarith
  have "(1::real) \<le> 2 ^ k" by (rule one_le_power) simp
  then have "(1::real) / 2 ^ k \<le> 1" by simp
  with assms(2) have lt1: "\<not> 1 \<le> \<bar>x\<bar>" by linarith
  define z where "z = 1 / \<bar>x\<bar>"
  have "\<bar>x\<bar> * 2 ^ k < 1"
    using assms(2) by (simp add: pos_less_divide_eq)
  then have z1: "2 ^ k < z"
    unfolding z_def using pos by (simp add: pos_less_divide_eq mult.commute)
  have "1 \<le> \<bar>x\<bar> * 2 ^ Suc k"
    using assms(1) by (simp add: pos_divide_le_eq)
  then have z2: "z \<le> 2 ^ Suc k"
    unfolding z_def using pos by (simp add: pos_divide_le_eq mult.commute)
  have lo: "(2::int) ^ k \<le> \<lceil>z\<rceil> - 1"
  proof -
    have "(2::int) ^ k < \<lceil>z\<rceil>" unfolding less_ceiling_iff using z1 by simp
    then show ?thesis by simp
  qed
  have hi: "\<lceil>z\<rceil> - 1 < (2::int) ^ Suc k"
  proof -
    have "\<lceil>z\<rceil> \<le> (2::int) ^ Suc k" unfolding ceiling_le_iff using z2 by simp
    then show ?thesis by simp
  qed
  have "bitlen (\<lceil>z\<rceil> - 1) = int k + 1" using lo hi by (rule bitlen_eqI)
  then show ?thesis unfolding binade_def z_def using lt1 by simp
qed

lemma b64_zero [simp]: "b64 0 = Finite 0"
  by (simp add: b64_def)

lemma b64_big:
  assumes "2 ^ k \<le> \<bar>x\<bar>" and "\<bar>x\<bar> < 2 ^ Suc k" and "k \<le> 52"
  shows "b64 x = Finite (of_int (py_round (x * 2 ^ (52 - k))) / 2 ^ (52 - k))"
proof -
  have "(1::real) \<le> 2 ^ k" by (rule one_le_power) simp
  with assms(1) have "1 \<le> \<bar>x\<bar>" by linarith
  then have nz: "x \<noteq> 0" by auto
  have bin: "binade x = int k" using assms(1,2) by (rule binade_big)
  define n where "n = 52 - k"
  have e: "max (int k) (- 1022) - 52 = - int n" using assms(3) by (simp add: n_def)
  have ulp: "2 powi (- int n) = 1 / (2::real) ^ n"
    by (simp add: power_int_minus field_simps)
  define q where "q = of_int (py_round (x * 2 ^ n)) / (2::real) ^ n"
  have "\<bar>x\<bar> * 2 ^ n \<le> 2 ^ Suc k * 2 ^ n"
    using assms(2) by (intro mult_right_mono) simp_all
  also have "\<dots> = (2::real) ^ 53" using assms(3) by (simp add: n_def flip: power_add)
  finally have b: "\<bar>x * 2 ^ n\<bar> \<le> 2 ^ 53" by (simp add: abs_mult)
  have up: "x * 2 ^ n \<le> of_int (2 ^ 53)" and dn: "of_int (- (2 ^ 53)) \<le> x * 2 ^ n"
    using b by (simp_all add: abs_le_iff) 
  have "py_round (x * 2 ^ n) \<le> 2 ^ 53" using up by (rule py_round_le)
  moreover have "- (2 ^ 53) \<le> py_round (x * 2 ^ n)" using dn by (rule py_round_ge)
  ultimately have "\<bar>real_of_int (py_round (x * 2 ^ n))\<bar> \<le> 2 ^ 53"
    by (simp add: abs_le_iff)
  then have "\<bar>q\<bar> \<le> 2 ^ 53 / 2 ^ n"
    unfolding q_def by (simp add: divide_right_mono)
  also have "\<dots> \<le> (2::real) ^ 53" by (simp add: field_simps one_le_power)
  also have "\<dots> < 2 powi 1024" by simp
  finally have small: "\<not> 2 powi 1024 \<le> \<bar>q\<bar>" by simp
  have "int k - 52 = - int n" using assms(3) by (simp add: n_def)
  then have ulp': "(2::real) powi (int k - 52) = 1 / 2 ^ n" using ulp by simp
  have "b64 x = (if 2 powi 1024 \<le> \<bar>q\<bar> then (if 0 < x then PInf else MInf) else Finite q)"
    using nz by (simp add: b64_def bin ulp' Let_def q_def)
  with small show ?thesis by (simp add: q_def n_def)
qed

lemma b64_small:
  assumes "1 / 2 ^ Suc k \<le> \<bar>x\<bar>" and "\<bar>x\<bar> < 1 / 2 ^ k" and "Suc k \<le> 1022"
  shows "b64 x = Finite (of_int (py_round (x * 2 ^ (k + 53))) / 2 ^ (k + 53))"
proof -
  have "(0::real) < 1 / 2 ^ Suc k" by simp
  with assms(1) have "0 < \<bar>x\<bar>" by linarith
  then have nz: "x \<noteq> 0" by auto
  have bin: "binade x = - int (Suc k)" using assms(1,2) by (rule binade_small)
  define n where "n = k + 53"
  have "max (- int (Suc k)) (- 1022) - 52 = - int n" using assms(3) by (simp add: n_def)
  moreover have "2 powi (- int n) = 1 / (2::real) ^ n"
    by (simp add: power_int_minus field_simps)
  ultimately have ulp: "(2::real) powi (max (- int (Suc k)) (- 1022) - 52) = 1 / 2 ^ n"
    by simp
  define q where "q = of_int (py_round (x * 2 ^ n)) / (2::real) ^ n"
  have "\<bar>x\<bar> * 2 ^ n \<le> (1 / 2 ^ k) * 2 ^ n"
    using assms(2) by (intro mult_right_mono) simp_all
  also have "\<dots> = (2::real) ^ 53" by (simp add: n_def power_add)
  finally have b: "\<bar>x * 2 ^ n\<bar> \<le> 2 ^ 53" by (simp add: abs_mult)
  have up: "x * 2 ^ n \<le> of_int (2 ^ 53)" and dn: "of_int (- (2 ^ 53)) \<le> x * 2 ^ n"
    using b by (simp_all add: abs_le_iff)
  have "py_round (x * 2 ^ n) \<le> 2 ^ 53" using up by (rule py_round_le)
  moreover have "- (2 ^ 53) \<le> py_round (x * 2 ^ n)" using dn by (rule py_round_ge)
  ultimately have "\<bar>real_of_int (py_round (x * 2 ^ n))\<bar> \<le> 2 ^ 53"
    by (simp add: abs_le_iff)
  then have "\<bar>q\<bar> \<le> 2 ^ 53 / 2 ^ n"
    unfolding q_def by (simp add: divide_right_mono)
  also have "\<dots> \<le> (2::real) ^ 53" by (simp add: field_simps one_le_power)
  also have "\<dots> < 2 powi 1024" by simp
  finally have small: "\<not> 2 powi 1024 \<le> \<bar>q\<bar>" by simp
  have "b64 x = (if 2 powi 1024 \<le> \<bar>q\<bar> then (if 0 < x then PInf else MInf) else Finite q)"
    using nz unfolding b64_def bin ulp Let_def q_def by simp
  with small show ?thesis by (simp add: q_def n_def)
qed

lemma b64_of_int:
  assumes "\<bar>n\<bar> < 2 ^ 53"
  shows "b64 (of_int n) = Finite (of_int n)"
proof (cases "n = 0")
  case True
  then show ?thesis by simp
next
  case False
  then have pos: "0 < \<bar>n\<bar>" by simp
  define k where "k = nat (bitlen \<bar>n\<bar> - 1)"
  from bitlen_bounds[OF pos] have lo: "2 ^ k \<le> \<bar>n\<bar>" and hi': "\<bar>n\<bar> < 2 ^ nat (bitlen \<bar>n\<bar>)"
    by (simp_all add: k_def)
  from pos have "1 \<le> bitlen \<bar>n\<bar>" by (simp add: bitlen_ge_iff_power)
  then have "nat (bitlen \<bar>n\<bar>) = Suc k" by (simp add: k_def)
  with hi' have hi: "\<bar>n\<bar> < 2 ^ Suc k" by simp
  have "bitlen \<bar>n\<bar> \<le> 53" using assms by (simp add: bitlen_le_iff_power)
  then have k52: "k \<le> 52" by (simp add: k_def)
  have rlo: "2 ^ k \<le> \<bar>real_of_int n\<bar>"
  proof -
    have "real_of_int (2 ^ k) \<le> real_of_int \<bar>n\<bar>" using lo by (simp only: of_int_le_iff)
    then show ?thesis by simp
  qed
  have rhi: "\<bar>real_of_int n\<bar> < 2 ^ Suc k"
  proof -
    have "real_of_int \<bar>n\<bar> < real_of_int (2 ^ Suc k)" using hi by (simp only: of_int_less_iff)
    then show ?thesis by simp
  qed
  have "real_of_int n * 2 ^ (52 - k) = real_of_int (n * 2 ^ (52 - k))" by simp
  then have "py_round (real_of_int n * 2 ^ (52 - k)) = n * 2 ^ (52 - k)"
    by (simp only: py_round_of_int)
  with b64_big[OF rlo rhi k52] show ?thesis by simp
qed

lemma b64_numeral:
  assumes "numeral w < (2::int) ^ 53"
  shows "b64 (numeral w) = Finite (numeral w)" and "b64 (- numeral w) = Finite (- numeral w)"
  using b64_of_int[of "numeral w"] b64_of_int[of "- numeral w"] assms by simp_all

lemma b64_one [simp]: "b64 1 = Finite 1"
  using b64_of_int[of 1] by simp

lemma b64_sign_keeping: "sign_keeping b64"
  unfolding sign_keeping_def not_neg_def
proof (intro allI impI)
  fix x :: real
  assume x: "0 \<le> x"
  show "\<not> flt (b64 x) (Finite 0)"
  proof (cases "x = 0")
    case True
    then show ?thesis by simp
  next
    case False
    define ulp :: real where "ulp = 2 powi (max (binade x) (- 1022) - 52)"
    have up: "0 < ulp" by (simp add: ulp_def)
    with x have "real_of_int 0 \<le> x / ulp" by simp
    then have "0 \<le> py_round (x / ulp)" by (rule py_round_ge)
    with up have q: "0 \<le> of_int (py_round (x / ulp)) * ulp" by simp
    from False x have "0 < x" by simp
    with False q show ?thesis
      by (simp add: b64_def Let_def ulp_def[symmetric])
  qed
qed

section \<open>Lemmas about the run on floats\<close>

text \<open>
  The month body on floats is the composition of its parts; the only exception that
  leaves a month, a trial or a run is the ZeroDivisionError of the competitor pass; and
  without shock, event and competitor a month is a step of the rounded recurrence.
\<close>

lemma fl_month_body_eq:
  "fl_month_body rnd fsum rand choice p month (st, ec, g) =
     (case fl_competitor_step rnd fsum p st (fl_shock_draw rnd rand p g) of
        Inl e \<Rightarrow> Inl e
      | Inr (cc, eg) \<Rightarrow>
          Inr (fl_month_update rnd p month (fl_shock_draw rnd rand p g)
                 (fl_event_draw rnd rand choice p g) cc eg st,
               count_opt ec (fl_event_draw rnd rand choice p g),
               fl_after_draws rnd rand choice p g))"
  by (simp add: fl_month_body_def fl_month_update_def fl_competitor_step_def fl_base_growth_def
      fl_shock_draw_def fl_event_draw_def fl_after_draws_def count_opt_def fl_event_opt_def
      Let_def split: prod.splits sum.splits)

lemma fl_apply_event_frame [simp]:
  "f_history (fl_apply_event rnd ev st) = f_history st"
  "f_clients (fl_apply_event rnd ev st) = f_clients st"
  "f_comp_clients (fl_apply_event rnd ev st) = f_comp_clients st"
  by (simp_all add: fl_apply_event_def)

lemma fl_event_opt_frame [simp]:
  "f_history (fl_event_opt rnd evo st) = f_history st"
  "f_clients (fl_event_opt rnd evo st) = f_clients st"
  "f_comp_clients (fl_event_opt rnd evo st) = f_comp_clients st"
  by (simp_all add: fl_event_opt_def split: option.splits)

lemma fl_event_opt_None [simp]: "fl_event_opt rnd None st = st"
  by (simp add: fl_event_opt_def)








lemma fl_month_body_quiet:
  assumes "market_shock_prob p = 0" "event_chance p = 0" "competitors p = []"
    and "\<forall>g. 0 \<le> fst (rand g)" and "rnd 0 = Finite 0"
  shows "fl_month_body rnd fsum rand choice p k (rounded_state rnd p gi ri k, ec, g) =
           Inr (rounded_state rnd p gi ri (Suc k), ec, snd (rand (snd (rand g))))"
proof -
  from assms(4) have u1: "\<not> fst (rand g) < 0" and u2: "\<not> fst (rand (snd (rand g))) < 0"
    by (simp_all add: not_less)
  have sd: "fl_shock_draw rnd rand p g = False"
    using assms(1,5) u1 by (simp add: fl_shock_draw_def)
  have ed: "fl_event_draw rnd rand choice p g = None"
    using assms(2,5) u2 by (simp add: fl_event_draw_def)
  have ad: "fl_after_draws rnd rand choice p g = snd (rand (snd (rand g)))"
    using assms(2,5) u2 by (simp add: fl_after_draws_def)
  define eg where "eg = fmul rnd (fdiv rnd (Finite gi) (Finite 100)) (rnd 1.0)"
  have cs: "fl_competitor_step rnd fsum p (rounded_state rnd p gi ri k) False = Inr ([], eg)"
    using assms(3)
    by (simp add: fl_competitor_step_def fl_base_growth_def rounded_state_def eg_def)
  have mu: "fl_month_update rnd p k False None [] eg (rounded_state rnd p gi ri k)
              = rounded_state rnd p gi ri (Suc k)"
    unfolding eg_def
    by (simp add: fl_month_update_def rounded_state_def rounded_row_def Let_def)
  show ?thesis
    by (simp add: fl_month_body_eq sd ed ad cs mu count_opt_def)
qed

lemma rounded_stop_step:
  assumes "k < h"
  shows "rounded_stop rnd p gi ri k h =
           (if flt (rounded_cash rnd p gi ri (Suc k)) (Finite 0) then Suc k
            else rounded_stop rnd p gi ri (Suc k) h)"
  using assms by (simp add: rounded_stop_def upt_conv_Cons)

lemma fl_run_months_quiet:
  assumes "market_shock_prob p = 0" "event_chance p = 0" "competitors p = []"
    and "\<forall>g. 0 \<le> fst (rand g)" and "rnd 0 = Finite 0"
  shows "k \<le> h \<Longrightarrow>
     \<exists>g'. fl_run_months rnd fsum rand choice p [k..<h] (rounded_state rnd p gi ri k, ec, g) =
           Inr (rounded_state rnd p gi ri (rounded_stop rnd p gi ri k h), ec, g')"
proof (induction "h - k" arbitrary: k g)
  case 0
  then have "k = h" by simp
  then show ?case by (simp add: rounded_stop_def)
next
  case (Suc n)
  then have lt: "k < h" by simp
  then have ms: "[k..<h] = k # [Suc k..<h]" by (simp add: upt_conv_Cons)
  note mb = fl_month_body_quiet[where rnd=rnd and fsum=fsum and rand=rand and choice=choice and k=k
      and gi=gi and ri=ri and ec=ec and g=g, OF assms]
  have c: "f_cash (rounded_state rnd p gi ri (Suc k)) = rounded_cash rnd p gi ri (Suc k)"
    by (simp add: rounded_state_def)
  show ?case
  proof (cases "flt (rounded_cash rnd p gi ri (Suc k)) (Finite 0)")
    case True
    then show ?thesis
      by (simp only: ms fl_run_months.simps mb sum.case fst_conv c if_True
            rounded_stop_step[OF lt]) blast
  next
    case False
    from Suc have "n = h - Suc k" "Suc k \<le> h" by simp_all
    from Suc.hyps(1)[OF this, of "snd (rand (snd (rand g)))"] obtain g' where
      "fl_run_months rnd fsum rand choice p [Suc k..<h]
         (rounded_state rnd p gi ri (Suc k), ec, snd (rand (snd (rand g)))) =
       Inr (rounded_state rnd p gi ri (rounded_stop rnd p gi ri (Suc k) h), ec, g')"
      by blast
    with False show ?thesis
      by (simp only: ms fl_run_months.simps mb sum.case fst_conv c if_False
            rounded_stop_step[OF lt]) blast
  qed
qed

lemma fl_run_trial_quiet:
  assumes "market_shock_prob p = 0" "event_chance p = 0" "competitors p = []"
    and "\<forall>g. 0 \<le> fst (rand g)" and "rnd 0 = Finite 0"
  shows "\<exists>g'. fl_run_trial rnd fsum rand choice p gi ri (ec, g)
           = Inr (rounded_trial rnd p gi ri, ec, g')"
proof -
  have st0: "\<lparr>f_cash = Finite (cash_start p), f_clients = Finite 100,
             f_growth_rate = Finite gi, f_retention = Finite ri,
             f_comp_clients = map (\<lambda>_. Finite 100) (competitors p), f_history = []\<rparr>
           = rounded_state rnd p gi ri 0"
    using assms(3) by (simp add: rounded_state_def)
  from fl_run_months_quiet[where rnd=rnd and fsum=fsum and rand=rand and k=0 and h="nat (total_months p)"
      and choice=choice and gi=gi and ri=ri and ec=ec and g=g, OF assms]
  obtain g' where "fl_run_months rnd fsum rand choice p (py_range (total_months p))
      (rounded_state rnd p gi ri 0, ec, g) =
      Inr (rounded_state rnd p gi ri (rounded_stop rnd p gi ri 0 (nat (total_months p))), ec, g')"
    by (auto simp: py_range_def)
  then have "fl_run_trial rnd fsum rand choice p gi ri (ec, g)
           = Inr (rounded_trial rnd p gi ri, ec, g')"
    by (simp add: fl_run_trial_def st0 Let_def rounded_trial_def rounded_state_def)
  then show ?thesis by blast
qed

lemma fl_run_trials_quiet:
  assumes "market_shock_prob p = 0" "event_chance p = 0" "competitors p = []"
    and "\<forall>g. 0 \<le> fst (rand g)" and "rnd 0 = Finite 0"
  shows "\<exists>g'. fl_run_trials rnd fsum rand choice p gi ri ns (results, ec, g) =
           Inr (results @ replicate (length ns) (rounded_trial rnd p gi ri), ec, g')"
proof (induction ns arbitrary: results g)
  case Nil
  then show ?case by simp
next
  case (Cons n ns)
  from fl_run_trial_quiet[where rnd=rnd and fsum=fsum and rand=rand and choice=choice and gi=gi and ri=ri
      and ec=ec and g=g, OF assms] obtain g1 where
    g1: "fl_run_trial rnd fsum rand choice p gi ri (ec, g) = Inr (rounded_trial rnd p gi ri, ec, g1)"
    by blast
  from Cons[of "results @ [rounded_trial rnd p gi ri]" g1] obtain g' where
    "fl_run_trials rnd fsum rand choice p gi ri ns (results @ [rounded_trial rnd p gi ri], ec, g1) =
       Inr ((results @ [rounded_trial rnd p gi ri])
              @ replicate (length ns) (rounded_trial rnd p gi ri), ec, g')"
    by blast
  then show ?case
    using g1 by (simp add: replicate_app_Cons_same)
qed

lemma fl_run_simulation_quiet:
  assumes "market_shock_prob p = 0" and "event_chance p = 0" and "competitors p = []"
    and "\<forall>g. 0 \<le> fst (rand g)" and "rnd 0 = Finite 0"
  shows "fl_run_simulation rnd fsum rand choice p gi ri g =
           Inr (replicate (nat (num_simulations p)) (rounded_trial rnd p gi ri), [])"
  using fl_run_trials_quiet[where rnd=rnd and fsum=fsum and rand=rand and choice=choice
      and gi=gi and ri=ri and ns="py_range (num_simulations p)" and results="[]" and ec="[]"
      and g=g, OF assms]
  by (auto simp: fl_run_simulation_def)


section \<open>Lemmas about the scoring on floats\<close>

text \<open>
  The operations keep a float that is not negative so, \<^verbatim>\<open>round\<close> and \<^verbatim>\<open>int\<close> of
  such a float are not negative, and the tally of a run on floats counts no event a
  negative number of times.
\<close>

lemma not_neg_cases:
  "not_neg v \<longleftrightarrow> v = NaN \<or> v = PInf \<or> (\<exists>x. 0 \<le> x \<and> v = Finite x)"
  by (cases v) (auto simp: not_neg_def)

lemma not_neg_simps [simp]:
  "not_neg NaN" "not_neg PInf" "\<not> not_neg MInf" "not_neg (Finite x) \<longleftrightarrow> 0 \<le> x"
  by (auto simp: not_neg_def)

lemma sign_keepingD: "sign_keeping rnd \<Longrightarrow> 0 \<le> x \<Longrightarrow> not_neg (rnd x)"
  by (simp add: sign_keeping_def)

lemma not_neg_signed_inf: "0 \<le> x \<Longrightarrow> not_neg (signed_inf x)"
  by (simp add: signed_inf_def)

lemma not_neg_fadd:
  assumes "sign_keeping rnd" and "not_neg a" and "not_neg b"
  shows "not_neg (fadd rnd a b)"
  using assms(2,3) sign_keepingD[OF assms(1)]
  by (cases a; cases b) simp_all

lemma not_neg_fmul:
  assumes "sign_keeping rnd" and "not_neg a" and "not_neg b"
  shows "not_neg (fmul rnd a b)"
  using assms(2,3) sign_keepingD[OF assms(1)]
  by (cases a; cases b) (simp_all add: not_neg_signed_inf)

lemma not_neg_fdiv:
  assumes "sign_keeping rnd" and "not_neg a" and "not_neg b"
  shows "not_neg (fdiv rnd a b)"
  using assms(2,3) sign_keepingD[OF assms(1)]
  by (cases a; cases b) (simp_all add: not_neg_signed_inf)

lemma not_neg_np_div:
  assumes "sign_keeping rnd" and "not_neg a" and "not_neg b"
  shows "not_neg (np_div rnd a b)"
proof (cases "b = Finite 0")
  case True
  with assms(2) show ?thesis
    by (cases a) (simp_all add: np_div_def not_neg_signed_inf)
next
  case False
  then show ?thesis by (simp add: np_div_def not_neg_fdiv[OF assms])
qed

lemma py_round_nonneg: "0 \<le> x \<Longrightarrow> 0 \<le> py_round x"
  by (simp add: py_round_def Let_def)

lemma py_int_nonneg: "0 \<le> x \<Longrightarrow> 0 \<le> py_int x"
  by (simp add: py_int_def)

lemma round_not_neg: "not_neg v \<Longrightarrow> py_round_float v = Inr r \<Longrightarrow> 0 \<le> r"
  by (cases v) (auto simp: py_round_nonneg)

lemma int_not_neg: "not_neg v \<Longrightarrow> py_int_float v = Inr r \<Longrightarrow> 0 \<le> r"
  by (cases v) (auto simp: py_int_nonneg)

lemma fl_robust_score_bounds:
  assumes "sign_keeping rnd" and "mean_keeps_sign np_mean"
    and "fl_robust_score rnd np_mean sim_data = Inr v"
  shows "0 \<le> v \<and> v \<le> 5"
proof -
  have "list_all not_neg (map (\<lambda>s. if f_succes s then Finite 1 else Finite 0) sim_data)"
    by (induction sim_data) simp_all
  with assms(2) have "not_neg (np_mean (map (\<lambda>s. if f_succes s then Finite 1 else Finite 0) sim_data))"
    by (simp add: mean_keeps_sign_def)
  then have "not_neg (fl_success_rate rnd np_mean sim_data)"
    unfolding fl_success_rate_def by (intro not_neg_fmul[OF assms(1)]) simp_all
  then have nn: "not_neg (fdiv rnd (fl_success_rate rnd np_mean sim_data) (Finite 20))"
    by (intro not_neg_fdiv[OF assms(1)]) simp_all
  from assms(3) obtain r where
    r: "py_round_float (fdiv rnd (fl_success_rate rnd np_mean sim_data) (Finite 20)) = Inr r"
    and v: "v = min 5 r"
    by (auto simp: fl_robust_score_def split: sum.splits)
  from round_not_neg[OF nn r] v show ?thesis by simp
qed

lemma int_truediv_not_neg:
  assumes "sign_keeping rnd" and "0 \<le> a" and "0 < b" and "int_truediv rnd a b = Inr q"
  shows "not_neg q"
proof -
  have "0 \<le> real_of_int a / real_of_int b" using assms(2,3) by simp
  then have nn: "not_neg (rnd (real_of_int a / real_of_int b))"
    by (rule sign_keepingD[OF assms(1)])
  from assms(3,4) have "q = rnd (real_of_int a / real_of_int b)"
    by (cases "rnd (real_of_int a / real_of_int b)") (simp_all add: int_truediv_def)
  with nn show ?thesis by simp
qed

lemma fl_resilience_score_bounds:
  assumes "sign_keeping rnd" and "mean_keeps_sign np_mean" and "1 \<le> total_months p"
    and "fl_resilience_score rnd np_mean p sim_data = Inr v"
  shows "0 \<le> v \<and> v \<le> 5"
proof -
  have "list_all not_neg (map (\<lambda>s. Finite (real (f_duree s))) sim_data)"
    by (induction sim_data) simp_all
  with assms(2) have a: "not_neg (fl_average_lifetime np_mean sim_data)"
    by (simp add: mean_keeps_sign_def fl_average_lifetime_def)
  from assms(4) obtain d r where
    d: "int_truediv rnd (total_months p) 5 = Inr d"
    and r: "py_round_float (np_div rnd (fl_average_lifetime np_mean sim_data) d) = Inr r"
    and v: "v = min 5 r"
    by (auto simp: fl_resilience_score_def split: sum.splits)
  have b: "not_neg d" using int_truediv_not_neg[OF assms(1) _ _ d] assms(3) by simp
  note nn = not_neg_np_div[OF assms(1) a b]
  from round_not_neg[OF nn r] v show ?thesis by simp
qed

lemma fl_stability_score_bounds:
  assumes "sign_keeping rnd" and "std_not_negative np_std"
    and "fl_stability_score rnd np_std sim_data = Inr v"
  shows "0 \<le> v \<and> v \<le> 5"
proof -
  from assms(2) have "not_neg (fl_std_dev_cash np_std sim_data)"
    by (simp add: std_not_negative_def fl_std_dev_cash_def)
  then have nn: "not_neg (fdiv rnd (fl_std_dev_cash np_std sim_data) (Finite 10000))"
    by (intro not_neg_fdiv[OF assms(1)]) simp_all
  from assms(3) obtain k where
    k: "py_int_float (fdiv rnd (fl_std_dev_cash np_std sim_data) (Finite 10000)) = Inr k"
    and v: "v = 5 - min 5 k"
    by (auto simp: fl_stability_score_def split: sum.splits)
  from int_not_neg[OF nn k] v show ?thesis by simp
qed

lemma fl_vulnerability_score_bounds:
  assumes "sign_keeping rnd" and "1 \<le> num_simulations p" and "0 \<le> total_events ec"
    and "fl_vulnerability_score rnd p ec = Inr v"
  shows "0 \<le> v \<and> v \<le> 5"
proof -
  from assms(4) obtain q r where
    q: "int_truediv rnd (total_events ec) (num_simulations p) = Inr q"
    and r: "py_round_float (fmul rnd q (Finite 5)) = Inr r"
    and v: "v = max 0 (5 - r)"
    by (auto simp: fl_vulnerability_score_def split: sum.splits)
  have "not_neg q" using int_truediv_not_neg[OF assms(1) assms(3) _ q] assms(2) by simp
  then have nn: "not_neg (fmul rnd q (Finite 5))"
    by (intro not_neg_fmul[OF assms(1)]) simp_all
  from round_not_neg[OF nn r] v show ?thesis by simp
qed

lemma fl_month_body_tally:
  assumes "fl_month_body rnd fsum rand choice p month (st, ec, g) = Inr (st', ec', g')"
    and "tally_ok ec"
  shows "tally_ok ec'"
  using assms by (auto simp: fl_month_body_eq count_opt_ok split: sum.splits)

lemma fl_run_months_tally:
  assumes "fl_run_months rnd fsum rand choice p ms s = Inr s'" and "tally_ok (fst (snd s))"
  shows "tally_ok (fst (snd s'))"
  using assms
proof (induction ms arbitrary: s)
  case Nil
  then show ?case by simp
next
  case (Cons month rest)
  from Cons.prems(1) obtain s1 where mb: "fl_month_body rnd fsum rand choice p month s = Inr s1"
    by (auto split: sum.splits)
  have ok1: "tally_ok (fst (snd s1))"
    using fl_month_body_tally[where rnd=rnd and fsum=fsum and rand=rand and choice=choice and p=p
        and month=month and st="fst s" and ec="fst (snd s)" and g="snd (snd s)"
        and st'="fst s1" and ec'="fst (snd s1)" and g'="snd (snd s1)"] mb Cons.prems(2) by simp
  show ?case
  proof (cases "flt (f_cash (fst s1)) (Finite 0)")
    case True
    with Cons.prems(1) mb ok1 show ?thesis by simp
  next
    case False
    with Cons.prems(1) mb have "fl_run_months rnd fsum rand choice p rest s1 = Inr s'" by simp
    from Cons.IH[OF this ok1] show ?thesis .
  qed
qed

lemma fl_run_trial_tally:
  assumes "fl_run_trial rnd fsum rand choice p gi ri (ec, g) = Inr (r, ec', g')" and "tally_ok ec"
  shows "tally_ok ec'"
proof -
  from assms(1) obtain st0 st where
    "fl_run_months rnd fsum rand choice p (py_range (total_months p)) (st0, ec, g) = Inr (st, ec', g')"
    by (auto simp: fl_run_trial_def Let_def split: sum.splits)
  from fl_run_months_tally[OF this] assms(2) show ?thesis by simp
qed

lemma fl_run_trials_tally:
  assumes "fl_run_trials rnd fsum rand choice p gi ri ns (results, ec, g) = Inr (results', ec', g')"
    and "tally_ok ec"
  shows "tally_ok ec'"
  using assms
proof (induction ns arbitrary: results ec g)
  case Nil
  then show ?case by simp
next
  case (Cons n rest)
  from Cons.prems(1) obtain r ec1 g1 where
    rt: "fl_run_trial rnd fsum rand choice p gi ri (ec, g) = Inr (r, ec1, g1)"
    and rec: "fl_run_trials rnd fsum rand choice p gi ri rest (results @ [r], ec1, g1)
                = Inr (results', ec', g')"
    by (auto split: sum.splits)
  from Cons.IH[OF rec fl_run_trial_tally[OF rt Cons.prems(2)]] show ?case .
qed

lemma fl_run_simulation_tally:
  assumes "fl_run_simulation rnd fsum rand choice p gi ri g = Inr (results, ec)"
  shows "0 \<le> total_events ec"
proof -
  from assms obtain g' where
    "fl_run_trials rnd fsum rand choice p gi ri (py_range (num_simulations p)) ([], [], g)
       = Inr (results, ec, g')"
    by (auto simp: fl_run_simulation_def split: sum.splits)
  from fl_run_trials_tally[OF this] have "tally_ok ec" by (simp add: tally_ok_def)
  then show ?thesis
    unfolding total_events_def tally_ok_def list_all_iff
    by (intro sum_list_nonneg) auto
qed

lemma plain_mean_keeps_sign:
  assumes "sign_keeping rnd"
  shows "mean_keeps_sign (plain_mean rnd)"
  unfolding mean_keeps_sign_def
proof (intro allI impI)
  fix xs assume xs: "list_all not_neg xs"
  have "not_neg a \<Longrightarrow> list_all not_neg ys \<Longrightarrow> not_neg (foldl (fadd rnd) a ys)" for a ys
    by (induction ys arbitrary: a) (simp_all add: not_neg_fadd[OF assms])
  from this[of "Finite 0" xs] xs have "not_neg (py_sum rnd xs)" by (simp add: py_sum_def)
  then show "not_neg (plain_mean rnd xs)"
    unfolding plain_mean_def by (auto intro!: not_neg_fdiv[OF assms])
qed

lemma fsqrt_not_neg: "sign_keeping rnd \<Longrightarrow> not_neg (fsqrt rnd v)"
  by (cases v) (simp_all add: sign_keepingD)

lemma plain_std_not_negative: "sign_keeping rnd \<Longrightarrow> std_not_negative (plain_std rnd)"
  by (simp add: std_not_negative_def plain_std_def Let_def fsqrt_not_neg)

section \<open>The worked examples on binary64, evaluated\<close>

lemma b64_bigI:
  assumes "2 ^ k \<le> \<bar>x\<bar>" and "\<bar>x\<bar> < 2 ^ Suc k" and "k \<le> 52"
    and "py_round (x * 2 ^ (52 - k)) = m" and "y = of_int m / 2 ^ (52 - k)"
  shows "b64 x = Finite y"
  using b64_big[OF assms(1,2,3)] assms(4,5) by simp

lemma b64_smallI:
  assumes "1 / 2 ^ Suc k \<le> \<bar>x\<bar>" and "\<bar>x\<bar> < 1 / 2 ^ k" and "Suc k \<le> 1022"
    and "py_round (x * 2 ^ (k + 53)) = m" and "y = of_int m / 2 ^ (k + 53)"
  shows "b64 x = Finite y"
  using b64_small[OF assms(1,2,3)] assms(4,5) by simp

lemma knife_retention: "b64 (18 / 100) = Finite (3242591731706757 / 18014398509481984)"
  by (rule b64_smallI[where k=2 and m="6485183463413514"]) (simp_all add: py_round_def Let_def)

lemma knife_growth: "b64 (232 / 100) = Finite (5224175567749775 / 2251799813685248)"
  by (rule b64_bigI[where k=1 and m="5224175567749775"]) (simp_all add: py_round_def Let_def)

lemma knife_growth_one: "b64 ((5224175567749775 / 2251799813685248) * 1) = Finite (5224175567749775 / 2251799813685248)"
  by (rule b64_bigI[where k=1 and m="5224175567749775"]) (simp_all add: py_round_def Let_def)

lemma knife_kept: "b64 (100 * (3242591731706757 / 18014398509481984)) = Finite (18)"
  by (rule b64_bigI[where k=4 and m="5066549580791808"]) (simp_all add: py_round_def Let_def)

lemma knife_gained: "b64 (100 * (5224175567749775 / 2251799813685248)) = Finite (8162774324609023 / 35184372088832)"
  by (rule b64_bigI[where k=7 and m="8162774324609023"]) (simp_all add: py_round_def Let_def)

lemma knife_clients: "b64 (18 + 8162774324609023 / 35184372088832) = Finite (8796093022207999 / 35184372088832)"
  by (rule b64_bigI[where k=7 and m="8796093022207999"]) (simp_all add: py_round_def Let_def)

lemma knife_revenue: "b64 ((8796093022207999 / 35184372088832) * 10) = Finite (5497558138879999 / 2199023255552)"
  by (rule b64_bigI[where k=11 and m="5497558138879999"]) (simp_all add: py_round_def Let_def)

lemma knife_margin: "b64 (5497558138879999 / 2199023255552 + - 3500) = Finite (- (2199023255552001 / 2199023255552))"
  by (rule b64_bigI[where k=9 and m="- 8796093022208004"]) (simp_all add: py_round_def Let_def)

lemma knife_cash: "b64 (1000 + - (2199023255552001 / 2199023255552)) = Finite (- (1 / 2199023255552))"
  by (rule b64_smallI[where k=40 and m="- 4503599627370496"]) (simp_all add: py_round_def Let_def)

lemma knife_rate_sum: "b64 (3242591731706757 / 18014398509481984 + 5224175567749775 / 2251799813685248) = Finite (5 / 2)"
  by (rule b64_bigI[where k=1 and m="5629499534213120"]) (simp_all add: py_round_def Let_def)

lemma knife_claimed: "b64 (100 * (5 / 2)) = Finite (250)"
  by (rule b64_bigI[where k=7 and m="8796093022208000"]) (simp_all add: py_round_def Let_def)


lemma knife_first_clients:
  "rounded_clients b64 232 18 (Suc 0) = Finite (8796093022207999 / 35184372088832)"
proof -
  have "rounded_clients b64 232 18 (Suc 0) =
      fadd b64 (fmul b64 (Finite 100) (b64 (18 / 100)))
        (fmul b64 (Finite 100) (fmul b64 (b64 (232 / 100)) (b64 1)))"
    by simp
  also have "\<dots> = fadd b64 (b64 (100 * (3242591731706757 / 18014398509481984)))
        (fmul b64 (Finite 100) (b64 ((5224175567749775 / 2251799813685248) * 1)))"
    by (simp only: knife_retention knife_growth b64_one fmul.simps)
  also have "\<dots> = b64 (18 + 8162774324609023 / 35184372088832)"
    by (simp only: knife_kept knife_growth_one knife_gained fmul.simps fadd.simps)
  finally show ?thesis by (simp only: knife_clients)
qed

lemma knife_first_cash:
  "rounded_cash b64 knife_params 232 18 (Suc 0) = Finite (- (1 / 2199023255552))"
proof -
  have "rounded_cash b64 knife_params 232 18 (Suc 0) =
      fadd b64 (Finite 1000)
        (fadd b64 (b64 ((8796093022207999 / 35184372088832) * 10)) (Finite (- 3500)))"
    by (simp only: rounded_cash.simps knife_first_clients fmul.simps fsub_def fneg.simps)
       (simp add: knife_params_def)
  also have "\<dots> = b64 (1000 + - (2199023255552001 / 2199023255552))"
    by (simp only: knife_revenue fadd.simps knife_margin)
  finally show ?thesis by (simp only: knife_cash)
qed

lemma knife_trial_rounded: "rounded_trial b64 knife_params 232 18 = knife_trial"
proof -
  have up: "[Suc 0..<Suc 6] = Suc 0 # [Suc (Suc 0)..<Suc 6]" by (simp add: upt_conv_Cons)
  have h: "nat (total_months knife_params) = 6" by (simp add: knife_params_def)
  have neg: "flt (rounded_cash b64 knife_params 232 18 (Suc 0)) (Finite 0)"
    by (simp only: knife_first_cash flt.simps)
  have stop: "rounded_stop b64 knife_params 232 18 0 6 = Suc 0"
    unfolding rounded_stop_def up by (simp only: find.simps neg if_True option.case)
  have one: "[1..<Suc (Suc 0)] = [Suc 0]" by simp
  show ?thesis
    unfolding rounded_trial_def h stop Let_def one list.map rounded_row_def
      knife_first_cash knife_first_clients knife_trial_def
    by simp
qed

lemma knife_claimed_clients:
  "fmul b64 (Finite 100)
     (fadd b64 (fdiv b64 (Finite 18) (Finite 100)) (fdiv b64 (Finite 232) (Finite 100)))
   = Finite 250"
proof -
  have "fmul b64 (Finite 100)
     (fadd b64 (fdiv b64 (Finite 18) (Finite 100)) (fdiv b64 (Finite 232) (Finite 100)))
     = fmul b64 (Finite 100)
         (b64 (3242591731706757 / 18014398509481984 + 5224175567749775 / 2251799813685248))"
    by (simp only: fdiv.simps knife_retention knife_growth fadd.simps)
  also have "\<dots> = b64 (100 * (5 / 2))"
    by (simp only: knife_rate_sum fmul.simps)
  finally show ?thesis by (simp only: knife_claimed) 
qed

lemma b64_minus_one [simp]: "b64 (- 1) = Finite (- 1)"
  using b64_of_int[of "- 1"] by simp

lemmas fl_run_defs = fl_run_simulation_def fl_run_trial_def fl_month_body_def py_range_def
  Let_def replay_rand_def replay_choice_def steady_rand_def steady_choice_def
  fl_apply_event_def count_event_def upt_conv_Cons py_div_def py_sum_def fmax0_def fsub_def
  b64_numeral


lemma knife_float_inputs: "float_inputs b64 knife_params 232 18"
  by (simp add: float_inputs_def is_float_def knife_params_def b64_numeral)

lemma float_inputs_zero:
  "float_inputs rnd p gi ri \<Longrightarrow> market_shock_prob p = 0 \<Longrightarrow> rnd 0 = Finite 0"
  by (auto simp: float_inputs_def is_float_def)

lemma level_clients: "rounded_clients b64 0 100 m = Finite 100"
  by (induction m) (simp_all add: b64_numeral)

lemma level_cash:
  "rounded_cash b64 level_params 0 100 (Suc 0) = Finite 20500"
  "rounded_cash b64 level_params 0 100 (Suc (Suc 0)) = Finite 21000"
  "rounded_cash b64 level_params 0 100 (Suc (Suc (Suc 0))) = Finite 21500"
  "rounded_cash b64 level_params 0 100 (Suc (Suc (Suc (Suc 0)))) = Finite 22000"
  "rounded_cash b64 level_params 0 100 (Suc (Suc (Suc (Suc (Suc 0))))) = Finite 22500"
  by (simp_all add: level_clients b64_numeral level_params_def fsub_def)

lemma level_trial_rounded: "rounded_trial b64 level_params 0 100 = level_trial"
proof -
  have h: "nat (total_months level_params) = 5" by (simp add: level_params_def)
  have five: "(5::nat) = Suc (Suc (Suc (Suc (Suc 0))))" by simp
  have stop: "rounded_stop b64 level_params 0 100 0 5 = 5"
    unfolding rounded_stop_def five by (simp add: upt_conv_Cons level_cash del: rounded_cash.simps)
  show ?thesis
    unfolding rounded_trial_def h stop Let_def
    unfolding five
    by (simp add: upt_conv_Cons rounded_row_def level_cash level_clients level_trial_def
        del: rounded_cash.simps rounded_clients.simps)
qed

lemma level_run:
  "fl_run_simulation b64 (py_sum b64) (steady_rand (1 / 2)) (steady_choice LeveeDeFonds)
     level_params 0 100 () = Inr ([level_trial], [])"
proof -
  have "fl_run_simulation b64 (py_sum b64) (steady_rand (1 / 2)) (steady_choice LeveeDeFonds)
     level_params 0 100 () =
     Inr (replicate (nat (num_simulations level_params)) (rounded_trial b64 level_params 0 100), [])"
    by (rule fl_run_simulation_quiet) (simp_all add: level_params_def steady_rand_def)
  then show ?thesis by (simp add: level_trial_rounded) (simp add: level_params_def)
qed

lemma level_scoring:
  "fl_strategic_scores b64 (plain_mean b64) (plain_std b64) level_params [level_trial] [] =
     Inr level_scores"
  by (simp add: fl_strategic_scores_def fl_robust_score_def fl_resilience_score_def
      fl_stability_score_def fl_vulnerability_score_def fl_success_rate_def
      fl_average_lifetime_def fl_std_dev_cash_def plain_mean_def plain_std_def py_sum_def
      fsub_def int_truediv_def np_div_def total_events_def level_trial_def level_params_def
      level_scores_def b64_numeral py_round_def py_int_def Let_def)


section \<open>The worked examples, evaluated\<close>

lemmas run_defs = run_simulation_def run_trial_def month_body_def py_range_def Let_def
  replay_rand_def replay_choice_def steady_rand_def steady_choice_def apply_event_def
  count_event_def upt_conv_Cons

lemma example_run:
  "run_simulation replay_rand replay_choice example_params 20 80 ([], []) =
     Inr ([example_trial], [])"
  by (simp add: run_defs example_params_def example_trial_def)

lemma tight_run:
  "run_simulation replay_rand replay_choice tight_params 20 80 ([], []) =
     Inr ([tight_trial], [])"
  by (simp add: run_defs example_params_def tight_params_def tight_trial_def)

lemma breakeven_run:
  "run_simulation replay_rand replay_choice breakeven_params 0 100 ([], []) =
     Inr ([breakeven_trial], [])"
  by (simp add: run_defs example_params_def breakeven_params_def breakeven_trial_def)

lemma partner_month:
  "month_body replay_rand replay_choice event_params 0
     (start_state, [], ([1 / 2, 1 / 2, 1 / 2, 1 / 2], [PartenariatStrategique, BugCritique])) =
   Inr (partner_state, [(PartenariatStrategique, 1)], ([1 / 2, 1 / 2], [BugCritique]))"
  by (simp add: run_defs example_params_def event_params_def start_state_def
      partner_state_def partner_row_def)

lemma bug_month:
  "run_months replay_rand replay_choice event_params [1]
     (partner_state, [(PartenariatStrategique, 1)], ([1 / 2, 1 / 2], [BugCritique])) =
   Inr (bug_state, [(PartenariatStrategique, 1), (BugCritique, 1)], ([], []))"
  by (simp add: run_defs example_params_def event_params_def partner_state_def
      partner_row_def bug_state_def)

lemma shocked_month:
  "month_body replay_rand replay_choice shock_params 0
     (start_state, [], ([1 / 20, 1 / 2], [])) = Inr (shocked_state, [], ([], []))"
  by (simp add: run_defs example_params_def shock_params_def start_state_def
      shocked_state_def)

lemma calm_month:
  "month_body replay_rand replay_choice shock_params 0
     (start_state, [], ([1 / 2, 1 / 2], [])) = Inr (calm_state, [], ([], []))"
  by (simp add: run_defs example_params_def shock_params_def start_state_def
      calm_state_def)
section \<open>The claims\<close>



text \<open>The same on binary64, with a retention of 200 so that every number is an integer.\<close>

lemma float_run_of_invalid_parameters:
  "\<not> valid_parameters example_params 0 200
   \<and> fl_run_simulation b64 (py_sum b64) replay_rand replay_choice example_params 0 200
         ([], []) = Inr ([doubling_trial], [])
   \<and> fl_run_simulation b64 (py_sum b64) replay_rand replay_choice
         (example_params\<lparr>num_simulations := 0\<rparr>) 20 80 ([], []) = Inr ([], [])"
  by (simp add: valid_parameters_def fl_run_defs example_params_def doubling_trial_def)

text \<open>
  Both outcomes occur, and validity decides neither. On binary64 the run with a retention
  of 150 completes. A valid parameter set can fail: with no growth, no retention and a
  competitor of growth -100, own clients and competitor clients are both 0 after the
  first month, and the market share division of the second month raises
  ZeroDivisionError (the sum has one addend, so every summation gives the same).
\<close>

lemma valid_parameters_can_divide_by_zero:
  "valid_parameters vanishing_params 0 0 \<and> float_inputs b64 vanishing_params 0 0
   \<and> \<not> no_competitor vanishing_params
   \<and> fl_run_simulation b64 (py_sum b64) replay_rand replay_choice vanishing_params 0 0
         ([], []) = Inl ZeroDivisionError"
  by (simp add: valid_parameters_def float_inputs_def is_float_def no_competitor_def
      fl_run_defs example_params_def vanishing_params_def)


text \<open>
  Claim C2, as amended. With a shock probability and an event probability of 0, no
  competitor and parameters that are floats, whatever the generator draws (numbers from
  0 on), every trial of a run is the same trial, and it follows the recurrence in the
  order the script computes it, every operation rounded to a float:
  \<open>clients[m] = clients[m-1] * (retention / 100) + clients[m-1] * (growth_rate / 100 * 1.0)\<close>
  and \<open>cash[m] = cash[m-1] + (clients[m] * 10 - burn_rate)\<close>, from 100 clients and the
  initial cash, up to the horizon or the first month whose cash is below zero. No event
  is counted.
\<close>

theorem quiet_run_follows_rounded_recurrence:
  assumes "market_shock_prob p = 0" and "event_chance p = 0" and "competitors p = []"
    and "float_inputs rnd p gi ri" and "\<forall>g. 0 \<le> fst (rand g)"
  shows "fl_run_simulation rnd fsum rand choice p gi ri g =
           Inr (replicate (nat (num_simulations p)) (rounded_trial rnd p gi ri), [])"
  using fl_run_simulation_quiet[where rnd=rnd and rand=rand and p=p,
      OF assms(1,2,3,5) float_inputs_zero[OF assms(4,1)]] .

text \<open>
  The closed form \<open>clients[m-1] * (retention / 100 + growth_rate / 100)\<close> of the claim is
  the same number on exact reals only. At the slider values of \<open>knife_params\<close>, which
  are valid, it gives 250 clients and a cash of exactly 0 after the first month, on reals
  and also when its own operations are rounded to binary64; on reals the trial runs its
  six months and succeeds. The script on binary64 computes the float just below 250, a
  cash of \<open>- 2^-41\<close>, and stops: every trial is a failure after one month.
\<close>

theorem closed_form_differs_on_floats:
  "valid_parameters knife_params 232 18
   \<and> market_shock_prob knife_params = 0 \<and> event_chance knife_params = 0
   \<and> competitors knife_params = []
   \<and> fl_run_simulation b64 (py_sum b64) (steady_rand (1 / 2)) (steady_choice LeveeDeFonds)
         knife_params 232 18 () = Inr (replicate 100 knife_trial, [])
   \<and> f_duree knife_trial = 1 \<and> \<not> f_succes knife_trial
   \<and> map f_row_clients (f_data knife_trial) = [Finite (250 - 1 / 2 ^ 45)]
   \<and> fmul b64 (Finite 100)
         (fadd b64 (fdiv b64 (Finite 18) (Finite 100)) (fdiv b64 (Finite 232) (Finite 100)))
       = Finite 250
   \<and> (\<exists>r s. run_trial (steady_rand (1 / 2)) (steady_choice LeveeDeFonds) knife_params 232 18
                 ([], ()) = Inr (r, s)
         \<and> duree r = 6 \<and> succes r
         \<and> map h_clients (take 1 (data r)) = [100 * (18 / 100 + 232 / 100)]
         \<and> map h_cash (take 1 (data r)) = [0])"
proof -
  have run: "fl_run_simulation b64 (py_sum b64) (steady_rand (1 / 2))
      (steady_choice LeveeDeFonds) knife_params 232 18 () = Inr (replicate 100 knife_trial, [])"
  proof -
    have "fl_run_simulation b64 (py_sum b64) (steady_rand (1 / 2))
        (steady_choice LeveeDeFonds) knife_params 232 18 () =
        Inr (replicate (nat (num_simulations knife_params))
               (rounded_trial b64 knife_params 232 18), [])"
      by (rule fl_run_simulation_quiet[where rnd=b64 and rand="steady_rand (1 / 2)"
            and p=knife_params])
         (simp_all add: knife_params_def steady_rand_def)
    then show ?thesis by (simp add: knife_trial_rounded) (simp add: knife_params_def)
  qed
  have exact: "\<exists>r s. run_trial (steady_rand (1 / 2)) (steady_choice LeveeDeFonds)
        knife_params 232 18 ([], ()) = Inr (r, s)
      \<and> duree r = 6 \<and> succes r
      \<and> map h_clients (take 1 (data r)) = [100 * (18 / 100 + 232 / 100)]
      \<and> map h_cash (take 1 (data r)) = [0]"
    by (simp add: run_defs knife_params_def)
  have rest: "valid_parameters knife_params 232 18
      \<and> market_shock_prob knife_params = 0 \<and> event_chance knife_params = 0
      \<and> competitors knife_params = []
      \<and> f_duree knife_trial = 1 \<and> \<not> f_succes knife_trial
      \<and> map f_row_clients (f_data knife_trial) = [Finite (250 - 1 / 2 ^ 45)]"
    by (simp add: valid_parameters_def knife_params_def knife_trial_def)
  from run exact rest knife_claimed_clients show ?thesis by blast
qed

text \<open>The amended statement at the same slider values.\<close>

theorem quiet_run_follows_rounded_recurrence_witness:
  "market_shock_prob knife_params = 0 \<and> event_chance knife_params = 0
   \<and> competitors knife_params = [] \<and> float_inputs b64 knife_params 232 18
   \<and> (\<forall>g. 0 \<le> fst (steady_rand (1 / 2) (g :: unit)))
   \<and> fl_run_simulation b64 (py_sum b64) (steady_rand (1 / 2)) (steady_choice LeveeDeFonds)
         knife_params 232 18 () =
       Inr (replicate (nat (num_simulations knife_params))
              (rounded_trial b64 knife_params 232 18), [])"
proof -
  have a: "market_shock_prob knife_params = 0" "event_chance knife_params = 0"
    "competitors knife_params = []"
    by (simp_all add: knife_params_def)
  have r: "\<forall>g. 0 \<le> fst (steady_rand (1 / 2) (g :: unit))"
    by (simp add: steady_rand_def)
  from quiet_run_follows_rounded_recurrence[OF a knife_float_inputs r,
      where fsum="py_sum b64" and choice="steady_choice LeveeDeFonds" and g="()"]
    a knife_float_inputs r
  show ?thesis by blast
qed


text \<open>
  Claim C3. In every trial of a run whose horizon is not negative: the duration is the
  length of the history and is at most the horizon; the months are numbered 1, 2, ...;
  every month but the last one recorded ended with a cash that is not negative (no month
  is simulated after the first negative one); a history that is not empty and shorter
  than the horizon ends on a negative cash; so a trial ends at the horizon or on a
  negative cash; and a horizon of at least one month gives a history that is not empty.
\<close>

theorem early_stop_invariant:
  assumes "run_simulation rand choice p gi ri g = Inr (results, ec)"
    and "0 \<le> total_months p"
  shows "\<forall>r\<in>set results.
           duree r = length (data r)
         \<and> int (duree r) \<le> total_months p
         \<and> map h_mois (data r) = map Suc [0..<length (data r)]
         \<and> (\<forall>i. Suc i < length (data r) \<longrightarrow> 0 \<le> h_cash (data r ! i))
         \<and> (data r \<noteq> [] \<and> int (length (data r)) < total_months p
              \<longrightarrow> h_cash (last (data r)) < 0)
         \<and> (int (length (data r)) = total_months p \<or> h_cash (last (data r)) < 0)
         \<and> (1 \<le> total_months p \<longrightarrow> data r \<noteq> [])"
proof
  fix r assume "r \<in> set results"
  with run_simulation_results(2)[OF assms(1)] obtain s s' where
    rt: "run_trial rand choice p gi ri s = Inr (r, s')" by blast
  note f = run_trial_result[OF rt]
  have lt: "int (length (data r)) < total_months p \<Longrightarrow> length (data r) < nat (total_months p)"
    by simp
  have a: "duree r = length (data r)" by (rule f(2))
  have b: "int (duree r) \<le> total_months p" using f(2,3) assms(2) by simp
  have c: "data r \<noteq> [] \<and> int (length (data r)) < total_months p \<longrightarrow> h_cash (last (data r)) < 0"
    using f(6,8) lt by auto
  have d: "int (length (data r)) = total_months p \<or> h_cash (last (data r)) < 0"
    using f(3,6,8) assms(2) by (cases "length (data r) < nat (total_months p)") auto
  have e: "1 \<le> total_months p \<longrightarrow> data r \<noteq> []"
    using f(8) by auto
  show "duree r = length (data r)
         \<and> int (duree r) \<le> total_months p
         \<and> map h_mois (data r) = map Suc [0..<length (data r)]
         \<and> (\<forall>i. Suc i < length (data r) \<longrightarrow> 0 \<le> h_cash (data r ! i))
         \<and> (data r \<noteq> [] \<and> int (length (data r)) < total_months p
              \<longrightarrow> h_cash (last (data r)) < 0)
         \<and> (int (length (data r)) = total_months p \<or> h_cash (last (data r)) < 0)
         \<and> (1 \<le> total_months p \<longrightarrow> data r \<noteq> [])"
    using a b f(4) f(5) c d e by blast
qed

text \<open>The trial that stops after one month of three, at -3000.\<close>

theorem early_stop_invariant_witness:
  "0 \<le> total_months tight_params
   \<and> run_simulation replay_rand replay_choice tight_params 20 80 ([], []) =
       Inr ([tight_trial], [])
   \<and> duree tight_trial = length (data tight_trial)
   \<and> int (duree tight_trial) \<le> total_months tight_params
   \<and> int (length (data tight_trial)) < total_months tight_params
   \<and> h_cash (last (data tight_trial)) < 0"
proof -
  have h: "0 \<le> total_months tight_params"
    by (simp add: tight_params_def example_params_def)
  have "tight_trial \<in> set [tight_trial]" by simp
  with early_stop_invariant[OF tight_run h]
  have c: "duree tight_trial = length (data tight_trial)
         \<and> int (duree tight_trial) \<le> total_months tight_params
         \<and> map h_mois (data tight_trial) = map Suc [0..<length (data tight_trial)]
         \<and> (\<forall>i. Suc i < length (data tight_trial) \<longrightarrow> 0 \<le> h_cash (data tight_trial ! i))
         \<and> (data tight_trial \<noteq> [] \<and> int (length (data tight_trial)) < total_months tight_params
              \<longrightarrow> h_cash (last (data tight_trial)) < 0)
         \<and> (int (length (data tight_trial)) = total_months tight_params
              \<or> h_cash (last (data tight_trial)) < 0)
         \<and> (1 \<le> total_months tight_params \<longrightarrow> data tight_trial \<noteq> [])"
    by (rule bspec)
  have ne: "data tight_trial \<noteq> []" by (simp add: tight_trial_def)
  have lt: "int (length (data tight_trial)) < total_months tight_params"
    by (simp add: tight_trial_def tight_params_def example_params_def)
  from c ne lt h tight_run show ?thesis by blast
qed

text \<open>
  A trial that reaches the horizon may end on either side of zero: the example trace ends
  its three months at 8000, and the company with 1000 of cash, given a horizon of one
  month, ends that month at -3000.
\<close>

lemma full_horizon_any_cash:
  "run_simulation replay_rand replay_choice example_params 20 80 ([], []) =
     Inr ([example_trial], [])
   \<and> int (duree example_trial) = total_months example_params
   \<and> 0 < cash_final example_trial
   \<and> run_simulation replay_rand replay_choice (tight_params\<lparr>total_months := 1\<rparr>) 20 80 ([], []) =
     Inr ([tight_trial], [])
   \<and> int (duree tight_trial) = total_months (tight_params\<lparr>total_months := 1\<rparr>)
   \<and> cash_final tight_trial < 0"
  by (simp add: run_defs example_params_def example_trial_def tight_params_def tight_trial_def)

text \<open>
  Claim C4. In every trial of a run the success flag is true exactly when the final cash
  is greater than 0, so a final cash of exactly 0 is a failure; the final cash is the cash
  of the last month recorded (the starting cash when no month was simulated).
\<close>

theorem success_iff_positive_final_cash:
  assumes "run_simulation rand choice p gi ri g = Inr (results, ec)"
  shows "\<forall>r\<in>set results. (succes r \<longleftrightarrow> 0 < cash_final r)
           \<and> (cash_final r = 0 \<longrightarrow> \<not> succes r)
           \<and> cash_final r = (if data r = [] then cash_start p else h_cash (last (data r)))"
proof
  fix r assume "r \<in> set results"
  with run_simulation_results(2)[OF assms(1)] obtain s s' where
    rt: "run_trial rand choice p gi ri s = Inr (r, s')" by blast
  from run_trial_result(1,6,7)[OF rt]
  show "(succes r \<longleftrightarrow> 0 < cash_final r) \<and> (cash_final r = 0 \<longrightarrow> \<not> succes r)
          \<and> cash_final r = (if data r = [] then cash_start p else h_cash (last (data r)))"
    by auto
qed

text \<open>The trial that ends at exactly 0 is a failure.\<close>

theorem success_iff_positive_final_cash_witness:
  "run_simulation replay_rand replay_choice breakeven_params 0 100 ([], []) =
     Inr ([breakeven_trial], [])
   \<and> cash_final breakeven_trial = 0
   \<and> (succes breakeven_trial \<longleftrightarrow> 0 < cash_final breakeven_trial)
   \<and> \<not> succes breakeven_trial"
proof -
  have "breakeven_trial \<in> set [breakeven_trial]" by simp
  with success_iff_positive_final_cash[OF breakeven_run]
  have c: "(succes breakeven_trial \<longleftrightarrow> 0 < cash_final breakeven_trial)
         \<and> (cash_final breakeven_trial = 0 \<longrightarrow> \<not> succes breakeven_trial)
         \<and> cash_final breakeven_trial =
             (if data breakeven_trial = [] then cash_start breakeven_params
              else h_cash (last (data breakeven_trial)))"
    by (rule bspec)
  have z: "cash_final breakeven_trial = 0" by (simp add: breakeven_trial_def)
  from c z breakeven_run show ?thesis by blast
qed

text \<open>
  Claim C10. In every trial of a run whose horizon is not negative, a true success flag
  means that the duration is the horizon: the loop leaves early only on a negative cash,
  which makes the flag false.
\<close>

theorem success_needs_full_horizon:
  assumes "run_simulation rand choice p gi ri g = Inr (results, ec)"
    and "0 \<le> total_months p"
  shows "\<forall>r\<in>set results. succes r \<longrightarrow> int (duree r) = total_months p"
proof (intro ballI impI)
  fix r assume "r \<in> set results" and suc: "succes r"
  with run_simulation_results(2)[OF assms(1)] obtain s s' where
    rt: "run_trial rand choice p gi ri s = Inr (r, s')" by blast
  note f = run_trial_result[OF rt]
  from suc f(1) have "\<not> cash_final r < 0" by simp
  with f(8) have "\<not> length (data r) < nat (total_months p)" by blast
  with f(2,3) assms(2) show "int (duree r) = total_months p" by simp
qed

text \<open>The example trace succeeds, and lasts its three months.\<close>

theorem success_needs_full_horizon_witness:
  "0 \<le> total_months example_params
   \<and> run_simulation replay_rand replay_choice example_params 20 80 ([], []) =
       Inr ([example_trial], [])
   \<and> succes example_trial
   \<and> int (duree example_trial) = total_months example_params"
proof -
  have h: "0 \<le> total_months example_params" by (simp add: example_params_def)
  have "example_trial \<in> set [example_trial]" by simp
  with success_needs_full_horizon[OF example_run h]
  have c: "succes example_trial \<longrightarrow> int (duree example_trial) = total_months example_params"
    by (rule bspec)
  have s: "succes example_trial" by (simp add: example_trial_def)
  from c s h example_run show ?thesis by blast
qed
text \<open>
  Claim C5. Whenever the scoring lines return scores for the results and the tally of a
  run with at least one trial and a horizon of at least one month, each of the four
  scores lies between 0 and 5, and the total, their sum, between 0 and 20. This holds
  for every rounding that keeps the sign, and for every mean and standard deviation with
  the two sign properties of numpy's. (The scoring does not always return: on a NaN or
  an infinity \<^verbatim>\<open>round\<close> and \<^verbatim>\<open>int\<close> raise, and then there is no score.)
\<close>

theorem scores_bounded_when_returned:
  assumes "fl_run_simulation rnd fsum rand choice p gi ri g = Inr (sim_data, ec)"
    and "1 \<le> num_simulations p" and "1 \<le> total_months p"
    and "sign_keeping rnd" and "mean_keeps_sign np_mean" and "std_not_negative np_std"
    and "fl_strategic_scores rnd np_mean np_std p sim_data ec = Inr sc"
  shows "0 \<le> robust sc \<and> robust sc \<le> 5
       \<and> 0 \<le> resilience sc \<and> resilience sc \<le> 5
       \<and> 0 \<le> stability sc \<and> stability sc \<le> 5
       \<and> 0 \<le> vulnerability sc \<and> vulnerability sc \<le> 5
       \<and> total sc = robust sc + resilience sc + stability sc + vulnerability sc
       \<and> 0 \<le> total sc \<and> total sc \<le> 20"
proof -
  from assms(7) obtain r1 r2 r3 r4 where
    s: "fl_robust_score rnd np_mean sim_data = Inr r1"
      "fl_resilience_score rnd np_mean p sim_data = Inr r2"
      "fl_stability_score rnd np_std sim_data = Inr r3"
      "fl_vulnerability_score rnd p ec = Inr r4"
    and sc: "sc = \<lparr>robust = r1, resilience = r2, stability = r3, vulnerability = r4,
                   total = r1 + r2 + r3 + r4\<rparr>"
    by (auto simp: fl_strategic_scores_def split: sum.splits)
  note b1 = fl_robust_score_bounds[OF assms(4,5) s(1)]
  note b2 = fl_resilience_score_bounds[OF assms(4,5,3) s(2)]
  note b3 = fl_stability_score_bounds[OF assms(4,6) s(3)]
  note b4 = fl_vulnerability_score_bounds[OF assms(4,2) fl_run_simulation_tally[OF assms(1)] s(4)]
  from b1 b2 b3 b4 show ?thesis by (simp add: sc)
qed

text \<open>
  On binary64, with a mean and a deviation that sum from left to right: the run of
  \<open>level_params\<close> returns one trial of five months, and its scores are 5 each.
\<close>

theorem scores_bounded_when_returned_witness:
  "fl_run_simulation b64 (py_sum b64) (steady_rand (1 / 2)) (steady_choice LeveeDeFonds)
     level_params 0 100 () = Inr ([level_trial], [])
   \<and> 1 \<le> num_simulations level_params \<and> 1 \<le> total_months level_params
   \<and> sign_keeping b64 \<and> mean_keeps_sign (plain_mean b64) \<and> std_not_negative (plain_std b64)
   \<and> fl_strategic_scores b64 (plain_mean b64) (plain_std b64) level_params [level_trial] [] =
       Inr level_scores
   \<and> 0 \<le> robust level_scores \<and> robust level_scores \<le> 5
   \<and> 0 \<le> resilience level_scores \<and> resilience level_scores \<le> 5
   \<and> 0 \<le> stability level_scores \<and> stability level_scores \<le> 5
   \<and> 0 \<le> vulnerability level_scores \<and> vulnerability level_scores \<le> 5
   \<and> total level_scores =
       robust level_scores + resilience level_scores + stability level_scores
         + vulnerability level_scores
   \<and> 0 \<le> total level_scores \<and> total level_scores \<le> 20"
proof -
  have n: "1 \<le> num_simulations level_params" "1 \<le> total_months level_params"
    by (simp_all add: level_params_def)
  note m = plain_mean_keeps_sign[OF b64_sign_keeping]
  note d = plain_std_not_negative[OF b64_sign_keeping]
  from scores_bounded_when_returned[OF level_run n b64_sign_keeping m d level_scoring]
    level_run n b64_sign_keeping m d level_scoring
  show ?thesis by blast
qed

text \<open>
  The hypothesis that scores are returned cannot be dropped. A trial whose cash has
  overflowed to an infinity has a standard deviation of NaN, and \<^verbatim>\<open>int\<close> raises
  ValueError on it.
\<close>

lemma scoring_can_raise:
  "fl_strategic_scores b64 (plain_mean b64) (plain_std b64) level_params
     [level_trial\<lparr>f_cash_final := PInf\<rparr>] [] = Inl ValueError"
  by (simp add: fl_strategic_scores_def fl_robust_score_def fl_resilience_score_def
      fl_stability_score_def fl_success_rate_def fl_average_lifetime_def fl_std_dev_cash_def
      plain_mean_def plain_std_def py_sum_def fsub_def int_truediv_def np_div_def
      signed_inf_def level_trial_def level_params_def b64_numeral py_round_def Let_def)


text \<open>
  Claim C6. In a month whose event draw triggers, the one event that \<open>choice\<close> returns
  is recorded for the month and counted once in the tally, and it changes the trial's
  variables as the table says: a fund raising adds 20000 to the cash, a partnership
  multiplies the growth rate by 1.2, a critical bug multiplies the retention by 0.9, a
  reputation crisis multiplies the growth rate by 0.7, and nothing else is touched by the
  event. The changed growth rate and retention are the ones every later month of the
  trial starts from: at the end of any later months they are the values of this month
  times the factors of the events drawn since. That \<open>choice\<close> is uniform is numpy's
  contract for \<^verbatim>\<open>np.random.choice\<close>, a parameter here.
\<close>

theorem strategic_event_effect:
  assumes "month_body rand choice p month (st, ec, g) = Inr (st1, ec1, g1)"
    and "fst (rand (snd (rand g))) < event_chance p / 100"
    and "run_months rand choice p ms (st1, ec1, g1) = Inr (st', ec', g')"
    and "ev = fst (choice (snd (rand (snd (rand g)))))"
  shows "h_event (last (history st1)) = Some ev
       \<and> ec1 = count_event ec ev
       \<and> growth_rate st1 =
           growth_rate st * (if ev = PartenariatStrategique then 1.2
                             else if ev = CriseReputationnelle then 0.7 else 1)
       \<and> retention st1 = retention st * (if ev = BugCritique then 0.9 else 1)
       \<and> cash st1 = cash st + (if ev = LeveeDeFonds then 20000 else 0)
                       + (clients st1 * 10 - burn_rate p)
       \<and> (\<exists>rows. history st' = history st1 @ rows
             \<and> growth_rate st' =
                 growth_rate st1 * prod_list (map (\<lambda>r. growth_factor (h_event r)) rows)
             \<and> retention st' =
                 retention st1 * prod_list (map (\<lambda>r. retention_factor (h_event r)) rows))"
proof -
  have ed: "event_draw rand choice p g = Some ev"
    using assms(2,4) by (simp add: event_draw_def)
  from assms(1) obtain cc eg where
    st1: "st1 = month_update p month (shock_draw rand p g) (event_draw rand choice p g) cc eg st"
    and ec1: "ec1 = count_opt ec (event_draw rand choice p g)"
    by (rule month_body_Inr)
  have a: "h_event (last (history st1)) = Some ev"
    by (simp add: st1 month_update_history ed)
  have b: "ec1 = count_event ec ev" by (simp add: ec1 ed count_opt_def)
  have c: "growth_rate st1 =
           growth_rate st * (if ev = PartenariatStrategique then 1.2
                             else if ev = CriseReputationnelle then 0.7 else 1)"
    by (cases ev) (simp_all add: st1 month_update_table ed growth_factor_def)
  have d: "retention st1 = retention st * (if ev = BugCritique then 0.9 else 1)"
    by (cases ev) (simp_all add: st1 month_update_table ed retention_factor_def)
  have e: "cash st1 = cash st + (if ev = LeveeDeFonds then 20000 else 0)
                       + (clients st1 * 10 - burn_rate p)"
    unfolding st1 by (subst month_update_table(5)) (cases ev; simp add: ed cash_bonus_def)
  from run_months_modifiers[OF assms(3)] have f:
    "\<exists>rows. history st' = history st1 @ rows
             \<and> growth_rate st' =
                 growth_rate st1 * prod_list (map (\<lambda>r. growth_factor (h_event r)) rows)
             \<and> retention st' =
                 retention st1 * prod_list (map (\<lambda>r. retention_factor (h_event r)) rows)"
    by simp
  from a b c d e f show ?thesis by blast
qed

text \<open>A partnership in the first month (20 becomes 24), a critical bug in the second.\<close>

theorem strategic_event_effect_witness:
  "month_body replay_rand replay_choice event_params 0
     (start_state, [], ([1 / 2, 1 / 2, 1 / 2, 1 / 2], [PartenariatStrategique, BugCritique])) =
   Inr (partner_state, [(PartenariatStrategique, 1)], ([1 / 2, 1 / 2], [BugCritique]))
   \<and> fst (replay_rand (snd (replay_rand
            ([1 / 2, 1 / 2, 1 / 2, 1 / 2], [PartenariatStrategique, BugCritique]))))
         < event_chance event_params / 100
   \<and> run_months replay_rand replay_choice event_params [1]
        (partner_state, [(PartenariatStrategique, 1)], ([1 / 2, 1 / 2], [BugCritique])) =
      Inr (bug_state, [(PartenariatStrategique, 1), (BugCritique, 1)], ([], []))
   \<and> h_event (last (history partner_state)) = Some PartenariatStrategique
   \<and> growth_rate partner_state = growth_rate start_state * 1.2
   \<and> retention partner_state = retention start_state
   \<and> (\<exists>rows. history bug_state = history partner_state @ rows
         \<and> growth_rate bug_state =
             growth_rate partner_state * prod_list (map (\<lambda>r. growth_factor (h_event r)) rows)
         \<and> retention bug_state =
             retention partner_state * prod_list (map (\<lambda>r. retention_factor (h_event r)) rows))"
proof -
  have h2: "fst (replay_rand (snd (replay_rand
            ([1 / 2, 1 / 2, 1 / 2, 1 / 2], [PartenariatStrategique, BugCritique]))))
         < event_chance event_params / 100"
    by (simp add: replay_rand_def event_params_def example_params_def)
  have h4: "PartenariatStrategique = fst (replay_choice (snd (replay_rand (snd (replay_rand
            ([1 / 2, 1 / 2, 1 / 2, 1 / 2], [PartenariatStrategique, BugCritique]))))))"
    by (simp add: replay_rand_def replay_choice_def)
  note c = strategic_event_effect[OF partner_month h2 bug_month h4]
  have e: "h_event (last (history partner_state)) = Some PartenariatStrategique"
    using c by simp
  have g: "growth_rate partner_state = growth_rate start_state * 1.2"
    using c by simp
  have r: "retention partner_state = retention start_state"
    using c by simp
  have x: "\<exists>rows. history bug_state = history partner_state @ rows
         \<and> growth_rate bug_state =
             growth_rate partner_state * prod_list (map (\<lambda>r. growth_factor (h_event r)) rows)
         \<and> retention bug_state =
             retention partner_state * prod_list (map (\<lambda>r. retention_factor (h_event r)) rows)"
    using c by blast
  from partner_month h2 bug_month e g r x show ?thesis by blast
qed

text \<open>
  Claim C7. Take one month from one state twice, once with a first draw that is a shock
  and once with one that is not, the generator being the same after that draw. The shock
  is recorded, and the clients gained in the month are half of what they are without it.
  Growth rate, retention, competitor counts, the event of the month, the tally and the
  generator come out the same; growth rate and retention are those of the start of the
  month times the factor of the month's event, shock or not. So the multiplier
  \<open>growth_rate / 100 * (0.5 or 1)\<close> that the next month starts from is the same in both
  cases, and without competitors so is the whole competitor step of the next month.
\<close>

theorem shock_is_one_month_only:
  assumes "month_body rand choice p month (st, ec, g) = Inr (sa, eca, ga)"
    and "month_body rand choice p month (st, ec, h) = Inr (sb, ecb, gb)"
    and "fst (rand g) < market_shock_prob p / 100"
    and "\<not> fst (rand h) < market_shock_prob p / 100"
    and "snd (rand g) = snd (rand h)"
  shows "h_shock (last (history sa)) \<and> \<not> h_shock (last (history sb))
       \<and> clients sa - clients st * (retention sa / 100) =
           (clients sb - clients st * (retention sb / 100)) / 2
       \<and> growth_rate sa = growth_rate sb \<and> retention sa = retention sb
       \<and> comp_clients sa = comp_clients sb
       \<and> h_event (last (history sa)) = h_event (last (history sb))
       \<and> eca = ecb \<and> ga = gb
       \<and> growth_rate sa = growth_rate st * growth_factor (h_event (last (history sa)))
       \<and> retention sa = retention st * retention_factor (h_event (last (history sa)))
       \<and> (\<forall>shk. growth_rate sa / 100 * (if shk then 0.5 else 1.0) =
                 growth_rate sb / 100 * (if shk then 0.5 else 1.0))
       \<and> (\<not> wargame_mode p \<or> competitors p = [] \<longrightarrow>
            (\<forall>shk. competitor_step p sa shk = competitor_step p sb shk))"
proof -
  have sg: "shock_draw rand p g" and sh: "\<not> shock_draw rand p h"
    using assms(3,4) by (simp_all add: shock_draw_def)
  have ed: "event_draw rand choice p g = event_draw rand choice p h"
    and ad: "after_draws rand choice p g = after_draws rand choice p h"
    using assms(5) by (simp_all add: event_draw_def after_draws_def)
  define evo where "evo = event_draw rand choice p h"
  from assms(1) sg ed obtain cca ega where
    a: "competitor_step p st True = Inr (cca, ega)"
      "sa = month_update p month True evo cca ega st"
      "eca = count_opt ec evo" "ga = after_draws rand choice p g"
    by (auto simp: evo_def elim: month_body_Inr)
  from assms(2) sh obtain ccb egb where
    b: "competitor_step p st False = Inr (ccb, egb)"
      "sb = month_update p month False evo ccb egb st"
      "ecb = count_opt ec evo" "gb = after_draws rand choice p h"
    by (auto simp: evo_def elim: month_body_Inr)
  from a(1) b(1) have cc: "cca = ccb" and eg: "ega = egb / 2"
    by (simp_all add: competitor_step_shock)
  have c1: "h_shock (last (history sa)) \<and> \<not> h_shock (last (history sb))"
    by (simp add: a(2) b(2) month_update_history)
  have c2: "clients sa - clients st * (retention sa / 100) =
           (clients sb - clients st * (retention sb / 100)) / 2"
    by (simp add: a(2) b(2) month_update_table eg)
  have c3: "growth_rate sa = growth_rate sb \<and> retention sa = retention sb
       \<and> comp_clients sa = comp_clients sb"
    by (simp add: a(2) b(2) month_update_table cc)
  have c4: "h_event (last (history sa)) = h_event (last (history sb)) \<and> eca = ecb \<and> ga = gb"
    by (simp add: a b month_update_history ad)
  have c5: "growth_rate sa = growth_rate st * growth_factor (h_event (last (history sa)))
       \<and> retention sa = retention st * retention_factor (h_event (last (history sa)))"
    by (simp add: a(2) month_update_table month_update_history)
  have c6: "\<forall>shk. growth_rate sa / 100 * (if shk then 0.5 else 1.0) =
                 growth_rate sb / 100 * (if shk then 0.5 else 1.0)"
    using c3 by simp
  have c7: "\<not> wargame_mode p \<or> competitors p = [] \<longrightarrow>
            (\<forall>shk. competitor_step p sa shk = competitor_step p sb shk)"
    using c3 by (auto simp: competitor_step_no_competitor)
  from c1 c2 c3 c4 c5 c6 c7 show ?thesis by blast
qed

text \<open>The example company: 10 new clients under the shock, 20 without, same rates.\<close>

theorem shock_is_one_month_only_witness:
  "month_body replay_rand replay_choice shock_params 0
     (start_state, [], ([1 / 20, 1 / 2], [])) = Inr (shocked_state, [], ([], []))
   \<and> month_body replay_rand replay_choice shock_params 0
     (start_state, [], ([1 / 2, 1 / 2], [])) = Inr (calm_state, [], ([], []))
   \<and> fst (replay_rand ([1 / 20, 1 / 2], [])) < market_shock_prob shock_params / 100
   \<and> \<not> fst (replay_rand ([1 / 2, 1 / 2], [])) < market_shock_prob shock_params / 100
   \<and> snd (replay_rand ([1 / 20, 1 / 2], [])) = snd (replay_rand ([1 / 2, 1 / 2], []))
   \<and> h_shock (last (history shocked_state)) \<and> \<not> h_shock (last (history calm_state))
   \<and> clients shocked_state - clients start_state * (retention shocked_state / 100) =
       (clients calm_state - clients start_state * (retention calm_state / 100)) / 2
   \<and> growth_rate shocked_state = growth_rate calm_state
   \<and> retention shocked_state = retention calm_state"
proof -
  have h3: "fst (replay_rand ([1 / 20, 1 / 2], [])) < market_shock_prob shock_params / 100"
    and h4: "\<not> fst (replay_rand ([1 / 2, 1 / 2], [])) < market_shock_prob shock_params / 100"
    and h5: "snd (replay_rand ([1 / 20, 1 / 2], [])) = snd (replay_rand ([1 / 2, 1 / 2], []))"
    by (simp_all add: replay_rand_def shock_params_def example_params_def)
  from shock_is_one_month_only[OF shocked_month calm_month h3 h4 h5]
    shocked_month calm_month h3 h4 h5
  show ?thesis by blast
qed



end
